theory Spec2Isabelle
  imports Complex_Main "HOL-Library.Word"
begin

section \<open>Single-precision values\<close>

text \<open>
  The C++ sources compute on \<^verbatim>\<open>float\<close>. A value is a finite number or one of the
  IEEE-754 special values. Finite values are real numbers and the arithmetic on them is
  exact: rounding to 24 bits, overflow of finite results and the sign of zero are not part
  of this model. The special values follow IEEE-754, so that every division, comparison
  and multiplication of the sources has a defined result.
\<close>

datatype float = Fin real | PInf | NInf | NaN

fun fmul :: "float \<Rightarrow> float \<Rightarrow> float" where
  "fmul (Fin a) (Fin b) = Fin (a * b)"
| "fmul NaN _ = NaN"
| "fmul _ NaN = NaN"
| "fmul (Fin a) PInf = (if a = 0 then NaN else if 0 < a then PInf else NInf)"
| "fmul (Fin a) NInf = (if a = 0 then NaN else if 0 < a then NInf else PInf)"
| "fmul PInf (Fin b) = (if b = 0 then NaN else if 0 < b then PInf else NInf)"
| "fmul NInf (Fin b) = (if b = 0 then NaN else if 0 < b then NInf else PInf)"
| "fmul PInf PInf = PInf"
| "fmul PInf NInf = NInf"
| "fmul NInf PInf = NInf"
| "fmul NInf NInf = PInf"

fun fadd :: "float \<Rightarrow> float \<Rightarrow> float" where
  "fadd (Fin a) (Fin b) = Fin (a + b)"
| "fadd NaN _ = NaN"
| "fadd _ NaN = NaN"
| "fadd PInf NInf = NaN"
| "fadd NInf PInf = NaN"
| "fadd PInf _ = PInf"
| "fadd _ PInf = PInf"
| "fadd NInf _ = NInf"
| "fadd _ NInf = NInf"

text \<open>
  Division. A finite zero divisor is taken as \<open>+0\<close>: the only divisor of the sources
  that can vanish is \<^verbatim>\<open>1.0f + linear\<close>, which is \<open>+0\<close> when it does.
\<close>

fun fdiv :: "float \<Rightarrow> float \<Rightarrow> float" where
  "fdiv (Fin a) (Fin b) =
     (if b \<noteq> 0 then Fin (a / b)
      else if a = 0 then NaN else if 0 < a then PInf else NInf)"
| "fdiv NaN _ = NaN"
| "fdiv _ NaN = NaN"
| "fdiv (Fin a) PInf = Fin 0"
| "fdiv (Fin a) NInf = Fin 0"
| "fdiv PInf (Fin b) = (if 0 \<le> b then PInf else NInf)"
| "fdiv NInf (Fin b) = (if 0 \<le> b then NInf else PInf)"
| "fdiv PInf PInf = NaN"
| "fdiv PInf NInf = NaN"
| "fdiv NInf PInf = NaN"
| "fdiv NInf NInf = NaN"

text \<open>The comparisons \<^verbatim>\<open><\<close>, \<^verbatim>\<open><=\<close> and \<^verbatim>\<open>!=\<close>: every ordered comparison with a NaN is
  false, and a NaN differs from everything.\<close>

fun flt :: "float \<Rightarrow> float \<Rightarrow> bool" where
  "flt (Fin a) (Fin b) = (a < b)"
| "flt NaN _ = False"
| "flt _ NaN = False"
| "flt _ NInf = False"
| "flt PInf _ = False"
| "flt NInf _ = True"
| "flt _ PInf = True"

fun fle :: "float \<Rightarrow> float \<Rightarrow> bool" where
  "fle (Fin a) (Fin b) = (a \<le> b)"
| "fle NaN _ = False"
| "fle _ NaN = False"
| "fle NInf _ = True"
| "fle _ PInf = True"
| "fle _ NInf = False"
| "fle PInf _ = False"

fun fne :: "float \<Rightarrow> float \<Rightarrow> bool" where
  "fne NaN _ = True"
| "fne _ NaN = True"
| "fne a b = (a \<noteq> b)"

definition fsub :: "float \<Rightarrow> float \<Rightarrow> float" where
  "fsub x y = fadd x (case y of Fin b \<Rightarrow> Fin (- b) | PInf \<Rightarrow> NInf | NInf \<Rightarrow> PInf | NaN \<Rightarrow> NaN)"

text \<open>\<^verbatim>\<open>std::min(a, b)\<close> is \<^verbatim>\<open>(b < a) ? b : a\<close> and \<^verbatim>\<open>std::max(a, b)\<close> is
  \<^verbatim>\<open>(a < b) ? b : a\<close>.\<close>

definition std_min :: "float \<Rightarrow> float \<Rightarrow> float" where
  "std_min a b = (if flt b a then b else a)"

definition std_max :: "float \<Rightarrow> float \<Rightarrow> float" where
  "std_max a b = (if flt a b then b else a)"

text \<open>\<^verbatim>\<open>std::pow\<close> is called on clamped arguments only, that is on finite bases in
  \<open>[0, 1]\<close> with a positive finite exponent, where it is the real power.\<close>

fun std_pow :: "float \<Rightarrow> float \<Rightarrow> float" where
  "std_pow (Fin a) (Fin b) = (if 0 \<le> a \<and> 0 < b then Fin (a powr b) else NaN)"
| "std_pow _ _ = NaN"

section \<open>Transfer functions\<close>

text \<open>\<^verbatim>\<open>applySRGBCurve\<close>: the encode-side curve.\<close>

definition applySRGBCurve :: "float \<Rightarrow> float" where
  "applySRGBCurve linear0 =
     (let linear = std_max (Fin 0) (std_min (Fin 1) linear0) in
      if fle linear (Fin 0.0031308) then fmul (Fin 12.92) linear
      else fsub (fmul (Fin 1.055) (std_pow linear (fdiv (Fin 1) (Fin 2.4)))) (Fin 0.055))"

text \<open>\<^verbatim>\<open>applySRGBInverse\<close>: the linearization applied to every sample unless
  \<^verbatim>\<open>--linear\<close> is given.\<close>

definition applySRGBInverse :: "float \<Rightarrow> float" where
  "applySRGBInverse srgb0 =
     (let srgb = std_max (Fin 0) (std_min (Fin 1) srgb0) in
      if fle srgb (Fin 0.04045) then fdiv srgb (Fin 12.92)
      else std_pow (fdiv (fadd srgb (Fin 0.055)) (Fin 1.055)) (Fin 2.4))"

text \<open>\<^verbatim>\<open>simpleToneMap\<close>: exposure, then the Reinhard curve \<open>x / (1 + x)\<close>.\<close>

definition simpleToneMap :: "float \<Rightarrow> float \<Rightarrow> float" where
  "simpleToneMap linear0 exposure =
     (let linear = fmul linear0 exposure in fdiv linear (fadd (Fin 1) linear))"

section \<open>The decoder session and the decoded buffer\<close>

text \<open>
  \<^verbatim>\<open>processor.imgdata.sizes\<close> and \<^verbatim>\<open>processor.imgdata.params\<close>: the fields of LibRaw's
  session that the converters read or assign.
\<close>

record image_sizes =
  raw_height :: nat
  raw_width :: nat
  height :: nat
  width :: nat
  top_margin :: nat
  left_margin :: nat
  iheight :: nat
  iwidth :: nat

record output_params =
  use_auto_wb :: int
  use_camera_wb :: int
  no_auto_bright :: int
  output_color :: int
  output_bps :: int
  user_flip :: int
  user_qual :: int
  four_color_rgb :: int
  highlight :: int
  use_fuji_rotate :: int
  gamm0 :: real
  gamm1 :: real
  bright :: real

record libraw_data =
  sizes :: image_sizes
  params :: output_params

text \<open>
  \<^verbatim>\<open>libraw_processed_image_t\<close>: the buffer that \<^verbatim>\<open>dcraw_make_mem_image\<close> returns. Its
  \<^verbatim>\<open>data\<close> is an array of bytes.
\<close>

type_synonym uint8 = "8 word"

record processed_image =
  image_height :: nat
  image_width :: nat
  image_colors :: nat
  image_bits :: nat
  image_data :: "uint8 list"

text \<open>
  The decoder is an external library. What its calls answer for a given input file and a
  given state of the session is a parameter of the model; every call may also change the
  session. \<^verbatim>\<open>LIBRAW_SUCCESS\<close> is 0, and \<^verbatim>\<open>dcraw_make_mem_image\<close> answers
  \<open>None\<close> for a null pointer.
\<close>

record libraw =
  open_file :: "string \<Rightarrow> int \<times> libraw_data"
  unpack :: "string \<Rightarrow> libraw_data \<Rightarrow> int \<times> libraw_data"
  dcraw_process :: "string \<Rightarrow> libraw_data \<Rightarrow> int \<times> libraw_data"
  dcraw_make_mem_image :: "string \<Rightarrow> libraw_data \<Rightarrow> processed_image option"

definition LIBRAW_SUCCESS :: int where
  "LIBRAW_SUCCESS = 0"

section \<open>The encoder and the file system\<close>

text \<open>
  \<^verbatim>\<open>Imf::Rgba\<close>: one pixel of the frame buffer. The channels hold the value assigned to
  them; the narrowing of that value to the encoder's 16-bit channel type is not modelled.
\<close>

record rgba =
  px_r :: float
  px_g :: float
  px_b :: float
  px_a :: float

text \<open>
  A file under the output directory is incomplete (created by the encoder, its scan lines
  not or not all written) or complete.
\<close>

datatype exr_file = Incomplete | Complete nat nat "rgba list list"

type_synonym fs = "string \<Rightarrow> exr_file option"

text \<open>
  The encoder is an external library as well. Constructing an \<^verbatim>\<open>RgbaOutputFile\<close> opens
  the file of that name for writing and writes the header; \<^verbatim>\<open>writePixels\<close> writes the
  scan lines. Where the library throws is a parameter: in the constructor (no file is
  opened), in the allocation of the pixel array, in \<^verbatim>\<open>writePixels\<close>, or nowhere.
\<close>

datatype exr_fault = NoFault | OpenThrows | AllocThrows | WriteThrows

text \<open>
  The calls a conversion makes, in the order it makes them. \<open>SetGeometry\<close> marks the
  assignments that overwrite the session's geometry; \<open>Unpack\<close>, \<open>DcrawProcess\<close> and
  \<open>MakeMemImage\<close> carry the session as the decoder finds it at that call.
\<close>

datatype call =
    OpenFile string
  | SetGeometry image_sizes
  | Unpack libraw_data
  | DcrawProcess libraw_data
  | MakeMemImage libraw_data
  | ExrOpen string nat nat
  | ExrWritePixels string nat
  | ClearMem

text \<open>What one call of a converter leaves behind: the value it returns, the calls it made
  and the file system.\<close>

record run =
  returned :: bool
  calls :: "call list"
  disk :: fs

section \<open>Reading samples\<close>

text \<open>
  A read outside the buffer is undefined behaviour in C++: \<open>None\<close>. The 16-bit view
  \<^verbatim>\<open>(unsigned short*)image->data\<close> reads two bytes in the byte order of the host, which
  is little-endian on the platforms the program is built for.
\<close>

definition read_u16 :: "uint8 list \<Rightarrow> nat \<Rightarrow> nat option" where
  "read_u16 d i =
     (if 2 * i + 1 < length d then Some (unat (d ! (2 * i)) + 256 * unat (d ! (2 * i + 1)))
      else None)"

definition read_u8 :: "uint8 list \<Rightarrow> nat \<Rightarrow> nat option" where
  "read_u8 d i = (if i < length d then Some (unat (d ! i)) else None)"

text \<open>\<^verbatim>\<open>int idx = (y * final_width + x) * colors\<close>: signed overflow is undefined
  behaviour as well. With three channels or more the loops also compute \<^verbatim>\<open>idx + 1\<close> and
  \<^verbatim>\<open>idx + 2\<close>.\<close>

definition pixel_index :: "nat \<Rightarrow> nat \<Rightarrow> nat \<Rightarrow> nat \<Rightarrow> nat option" where
  "pixel_index w colors y x =
     (if y * w + x < 2 ^ 31
         \<and> (y * w + x) * colors + (if 3 \<le> colors then 2 else 0) < 2 ^ 31
      then Some ((y * w + x) * colors) else None)"

section \<open>The general converter: pixels\<close>

text \<open>
  What the general converter does to one normalized channel value: the inverse sRGB
  curve if \<^verbatim>\<open>useSRGB\<close>, then the tone mapping if \<^verbatim>\<open>exposure != 1.0f\<close>. The source
  repeats these two tests for every channel of every branch.
\<close>

definition channel :: "bool \<Rightarrow> float \<Rightarrow> float \<Rightarrow> float" where
  "channel useSRGB exposure v0 =
     (let v = (if useSRGB then applySRGBInverse v0 else v0) in
      if fne exposure (Fin 1) then simpleToneMap v exposure else v)"

text \<open>The body of the two inner loops: \<open>rd\<close> reads a sample of the buffer and
  \<open>maxv\<close> is 65535 or 255.\<close>

definition pixel :: "bool \<Rightarrow> float \<Rightarrow> (nat \<Rightarrow> nat option) \<Rightarrow> real \<Rightarrow> nat \<Rightarrow> nat
    \<Rightarrow> rgba option" where
  "pixel useSRGB exposure rd maxv colors idx =
     (if 3 \<le> colors then
        (case (rd idx, rd (idx + 1), rd (idx + 2)) of
           (Some sr, Some sg, Some sb) \<Rightarrow>
             Some \<lparr>px_r = channel useSRGB exposure (fdiv (Fin (real sr)) (Fin maxv)),
                   px_g = channel useSRGB exposure (fdiv (Fin (real sg)) (Fin maxv)),
                   px_b = channel useSRGB exposure (fdiv (Fin (real sb)) (Fin maxv)),
                   px_a = Fin 1\<rparr>
         | _ \<Rightarrow> None)
      else
        (case rd idx of
           Some s \<Rightarrow>
             (let gray = channel useSRGB exposure (fdiv (Fin (real s)) (Fin maxv)) in
              Some \<lparr>px_r = gray, px_g = gray, px_b = gray, px_a = Fin 1\<rparr>)
         | None \<Rightarrow> None))"

text \<open>The two nested loops over \<open>y\<close> and \<open>x\<close>: the rows of the pixel array, or
  \<open>None\<close> when some read is undefined.\<close>

definition scan :: "nat \<Rightarrow> nat \<Rightarrow> (nat \<Rightarrow> nat \<Rightarrow> rgba option) \<Rightarrow> rgba list list option" where
  "scan h w f = those (map (\<lambda>y. those (map (\<lambda>x. f y x) [0..<w])) [0..<h])"

definition convert_pixels :: "bool \<Rightarrow> float \<Rightarrow> processed_image \<Rightarrow> rgba list list option" where
  "convert_pixels useSRGB exposure img =
     (let w = image_width img; h = image_height img; colors = image_colors img in
      if image_bits img = 16 then
        scan h w (\<lambda>y x. case pixel_index w colors y x of None \<Rightarrow> None
          | Some idx \<Rightarrow> pixel useSRGB exposure (read_u16 (image_data img)) 65535 colors idx)
      else
        scan h w (\<lambda>y x. case pixel_index w colors y x of None \<Rightarrow> None
          | Some idx \<Rightarrow> pixel useSRGB exposure (read_u8 (image_data img)) 255 colors idx))"

section \<open>The general converter\<close>

text \<open>
  The \<^verbatim>\<open>try\<close> block of the general \<^verbatim>\<open>convert3frToExr\<close>: the output file is constructed
  first, then the pixel array is allocated and filled, then the pixels are written. Every
  exception is caught, the buffer is released and \<^verbatim>\<open>false\<close> is returned; nothing in
  the handler touches the output file. \<open>tr\<close> holds the calls made so far.
\<close>

definition exr_stage :: "(string \<Rightarrow> exr_fault) \<Rightarrow> string \<Rightarrow> bool \<Rightarrow> float \<Rightarrow> processed_image
    \<Rightarrow> call list \<Rightarrow> fs \<Rightarrow> run option" where
  "exr_stage exr outputPath useSRGB exposure img tr files =
     (let final_width = image_width img; final_height = image_height img;
          tr1 = tr @ [ExrOpen outputPath final_width final_height] in
      case exr outputPath of
        OpenThrows \<Rightarrow> Some \<lparr>returned = False, calls = tr1 @ [ClearMem], disk = files\<rparr>
      | AllocThrows \<Rightarrow>
          Some \<lparr>returned = False, calls = tr1 @ [ClearMem],
                disk = files(outputPath \<mapsto> Incomplete)\<rparr>
      | fault \<Rightarrow>
          (case convert_pixels useSRGB exposure img of
             None \<Rightarrow> None
           | Some pixels \<Rightarrow>
               if fault = WriteThrows then
                 Some \<lparr>returned = False,
                       calls = tr1 @ [ExrWritePixels outputPath final_height, ClearMem],
                       disk = files(outputPath \<mapsto> Incomplete)\<rparr>
               else
                 Some \<lparr>returned = True,
                       calls = tr1 @ [ExrWritePixels outputPath final_height, ClearMem],
                       disk = files(outputPath \<mapsto> Complete final_width final_height pixels)\<rparr>))"

text \<open>The assignments of the general converter that force the full sensor area, made
  after \<^verbatim>\<open>unpack\<close> has returned, and the processing parameters it sets next.\<close>

definition force_full_sensor :: "image_sizes \<Rightarrow> image_sizes" where
  "force_full_sensor s =
     (let raw_w = raw_width s; raw_h = raw_height s in
      s\<lparr>width := raw_w, height := raw_h, left_margin := 0, top_margin := 0,
        iwidth := raw_w, iheight := raw_h, raw_width := raw_w, raw_height := raw_h\<rparr>)"

definition general_params :: "output_params \<Rightarrow> output_params" where
  "general_params p =
     p\<lparr>use_auto_wb := 0, use_camera_wb := 1, no_auto_bright := 1, output_color := 1,
       output_bps := 16, user_flip := 0, user_qual := 3, four_color_rgb := 0,
       highlight := 0, use_fuji_rotate := 0\<rparr>"

text \<open>
  The first half of the general \<^verbatim>\<open>convert3frToExr\<close>, from \<^verbatim>\<open>open_file\<close> to
  \<^verbatim>\<open>dcraw_make_mem_image\<close>: the calls made, and the buffer fetched or \<open>None\<close> where the
  function has returned \<^verbatim>\<open>false\<close>.
\<close>

definition decode :: "libraw \<Rightarrow> string \<Rightarrow> call list \<times> processed_image option" where
  "decode lr inputPath =
     (case open_file lr inputPath of (ret0, d0) \<Rightarrow>
      if ret0 \<noteq> LIBRAW_SUCCESS then ([OpenFile inputPath], None)
      else
        (case unpack lr inputPath d0 of (ret1, d1) \<Rightarrow>
         if ret1 \<noteq> LIBRAW_SUCCESS then ([OpenFile inputPath, Unpack d0], None)
         else
           (let s2 = force_full_sensor (sizes d1);
                d2 = d1\<lparr>sizes := s2, params := general_params (params d1)\<rparr>;
                tr2 = [OpenFile inputPath, Unpack d0, SetGeometry s2, DcrawProcess d2] in
            case dcraw_process lr inputPath d2 of (ret3, d3) \<Rightarrow>
            if ret3 \<noteq> LIBRAW_SUCCESS then (tr2, None)
            else (tr2 @ [MakeMemImage d3], dcraw_make_mem_image lr inputPath d3))))"

text \<open>\<^verbatim>\<open>convert3frToExr(inputPath, outputPath, useSRGB, exposure)\<close> of the general
  variant. \<open>None\<close> is undefined behaviour (a read outside the decoded buffer).\<close>

definition convert3frToExr :: "libraw \<Rightarrow> (string \<Rightarrow> exr_fault) \<Rightarrow> string \<Rightarrow> string \<Rightarrow> bool
    \<Rightarrow> float \<Rightarrow> fs \<Rightarrow> run option" where
  "convert3frToExr lr exr inputPath outputPath useSRGB exposure files =
     (case decode lr inputPath of
        (tr, None) \<Rightarrow> Some \<lparr>returned = False, calls = tr, disk = files\<rparr>
      | (tr, Some img) \<Rightarrow> exr_stage exr outputPath useSRGB exposure img tr files)"

section \<open>The full-sensor converter\<close>

text \<open>The full-sensor variant accepts two formats only, takes the samples as they are and
  returns \<^verbatim>\<open>false\<close> from inside the \<^verbatim>\<open>try\<close> block for every other format.\<close>

definition pixel_fs :: "(nat \<Rightarrow> nat option) \<Rightarrow> real \<Rightarrow> nat \<Rightarrow> rgba option" where
  "pixel_fs rd maxv idx =
     (case (rd idx, rd (idx + 1), rd (idx + 2)) of
        (Some sr, Some sg, Some sb) \<Rightarrow>
          Some \<lparr>px_r = fdiv (Fin (real sr)) (Fin maxv), px_g = fdiv (Fin (real sg)) (Fin maxv),
                px_b = fdiv (Fin (real sb)) (Fin maxv), px_a = Fin 1\<rparr>
      | _ \<Rightarrow> None)"

datatype fs_pixels = Unsupported | BadRead | Pixels "rgba list list"

definition convert_pixels_fs :: "processed_image \<Rightarrow> fs_pixels" where
  "convert_pixels_fs img =
     (let w = image_width img; h = image_height img in
      if image_colors img = 3 \<and> image_bits img = 16 then
        (case scan h w (\<lambda>y x. case pixel_index w 3 y x of None \<Rightarrow> None
                 | Some idx \<Rightarrow> pixel_fs (read_u16 (image_data img)) 65535 idx) of
           None \<Rightarrow> BadRead | Some pixels \<Rightarrow> Pixels pixels)
      else if image_colors img = 3 \<and> image_bits img = 8 then
        (case scan h w (\<lambda>y x. case pixel_index w 3 y x of None \<Rightarrow> None
                 | Some idx \<Rightarrow> pixel_fs (read_u8 (image_data img)) 255 idx) of
           None \<Rightarrow> BadRead | Some pixels \<Rightarrow> Pixels pixels)
      else Unsupported)"

definition exr_stage_fs :: "(string \<Rightarrow> exr_fault) \<Rightarrow> string \<Rightarrow> processed_image \<Rightarrow> call list \<Rightarrow> fs
    \<Rightarrow> run option" where
  "exr_stage_fs exr outputPath img tr files =
     (let w = image_width img; h = image_height img;
          tr1 = tr @ [ExrOpen outputPath w h] in
      case exr outputPath of
        OpenThrows \<Rightarrow> Some \<lparr>returned = False, calls = tr1 @ [ClearMem], disk = files\<rparr>
      | AllocThrows \<Rightarrow>
          Some \<lparr>returned = False, calls = tr1 @ [ClearMem],
                disk = files(outputPath \<mapsto> Incomplete)\<rparr>
      | fault \<Rightarrow>
          (case convert_pixels_fs img of
             BadRead \<Rightarrow> None
           | Unsupported \<Rightarrow>
               Some \<lparr>returned = False, calls = tr1 @ [ClearMem],
                     disk = files(outputPath \<mapsto> Incomplete)\<rparr>
           | Pixels pixels \<Rightarrow>
               if fault = WriteThrows then
                 Some \<lparr>returned = False, calls = tr1 @ [ExrWritePixels outputPath h, ClearMem],
                       disk = files(outputPath \<mapsto> Incomplete)\<rparr>
               else
                 Some \<lparr>returned = True, calls = tr1 @ [ExrWritePixels outputPath h, ClearMem],
                       disk = files(outputPath \<mapsto> Complete w h pixels)\<rparr>))"

text \<open>The processing parameters and the geometry the full-sensor variant sets, both
  before \<^verbatim>\<open>unpack\<close> is called.\<close>

definition full_sensor_params :: "output_params \<Rightarrow> output_params" where
  "full_sensor_params p =
     p\<lparr>use_camera_wb := 1, output_color := 1, output_bps := 16, no_auto_bright := 1,
       gamm0 := 1, gamm1 := 1, bright := 1, user_qual := 3\<rparr>"

definition use_full_sensor :: "image_sizes \<Rightarrow> image_sizes" where
  "use_full_sensor s =
     (let full_width = raw_width s; full_height = raw_height s in
      s\<lparr>width := full_width, height := full_height, top_margin := 0, left_margin := 0,
        iwidth := full_width, iheight := full_height\<rparr>)"

text \<open>The first half of the full-sensor \<^verbatim>\<open>convert3frToExr\<close>.\<close>

definition decode_fs :: "libraw \<Rightarrow> string \<Rightarrow> call list \<times> processed_image option" where
  "decode_fs lr inputPath =
     (case open_file lr inputPath of (ret0, d0) \<Rightarrow>
      if ret0 \<noteq> LIBRAW_SUCCESS then ([OpenFile inputPath], None)
      else
        (let s1 = use_full_sensor (sizes d0);
             d1 = d0\<lparr>params := full_sensor_params (params d0), sizes := s1\<rparr>;
             tr1 = [OpenFile inputPath, SetGeometry s1, Unpack d1] in
         case unpack lr inputPath d1 of (ret2, d2) \<Rightarrow>
         if ret2 \<noteq> LIBRAW_SUCCESS then (tr1, None)
         else
           (case dcraw_process lr inputPath d2 of (ret3, d3) \<Rightarrow>
            if ret3 \<noteq> LIBRAW_SUCCESS then (tr1 @ [DcrawProcess d2], None)
            else (tr1 @ [DcrawProcess d2, MakeMemImage d3],
                  dcraw_make_mem_image lr inputPath d3))))"

text \<open>\<^verbatim>\<open>convert3frToExr(inputPath, outputPath)\<close> of the full-sensor variant.\<close>

definition convert3frToExr_fs :: "libraw \<Rightarrow> (string \<Rightarrow> exr_fault) \<Rightarrow> string \<Rightarrow> string \<Rightarrow> fs
    \<Rightarrow> run option" where
  "convert3frToExr_fs lr exr inputPath outputPath files =
     (case decode_fs lr inputPath of
        (tr, None) \<Rightarrow> Some \<lparr>returned = False, calls = tr, disk = files\<rparr>
      | (tr, Some img) \<Rightarrow> exr_stage_fs exr outputPath img tr files)"

section \<open>The batch program\<close>

text \<open>\<^verbatim>\<open>is3frFile\<close> and \<^verbatim>\<open>getBasename\<close>, with \<^verbatim>\<open>::tolower\<close> on ASCII and
  \<^verbatim>\<open>find_last_of\<close> answering \<open>None\<close> for \<^verbatim>\<open>npos\<close>.\<close>

definition tolower :: "char \<Rightarrow> char" where
  "tolower c = (let n = (of_char c :: nat) in if 65 \<le> n \<and> n \<le> 90 then char_of (n + 32) else c)"

definition is3frFile :: "string \<Rightarrow> bool" where
  "is3frFile filename =
     (if length filename < 4 then False
      else map tolower (drop (length filename - 4) filename) = ''.3fr'')"

definition find_last_of :: "char list \<Rightarrow> string \<Rightarrow> nat option" where
  "find_last_of cs str =
     (case filter (\<lambda>i. str ! i \<in> set cs) (rev [0..<length str]) of
        [] \<Rightarrow> None | i # _ \<Rightarrow> Some i)"

definition getBasename :: "string \<Rightarrow> string" where
  "getBasename filepath =
     (let lastSlash = find_last_of [CHR ''/'', CHR 0x5C] filepath;
          lastDot = find_last_of [CHR ''.''] filepath;
          start = (case lastSlash of None \<Rightarrow> 0 | Some i \<Rightarrow> i + 1);
          end' = (case lastDot of None \<Rightarrow> length filepath
                  | Some j \<Rightarrow> if j < start then length filepath else j)
      in take (end' - start) (drop start filepath))"

text \<open>
  How a run of \<^verbatim>\<open>main\<close> ends: with an exit status, with an exception that nothing
  catches (\<^verbatim>\<open>std::stof\<close> throws on a value it cannot convert), or undefined
  (\<^verbatim>\<open>inputDir.back()\<close> on an empty string).
\<close>

datatype status = Exit int | Uncaught | UndefinedBehaviour

text \<open>
  The operating system, as the program queries it: \<^verbatim>\<open>directoryExists\<close> and
  \<^verbatim>\<open>createDirectory\<close> are the helpers of the sources (\<^verbatim>\<open>stat\<close>, \<^verbatim>\<open>mkdir\<close>);
  \<open>readdir\<close> lists the entries of a directory in the order \<^verbatim>\<open>readdir\<close> yields them,
  each with its \<^verbatim>\<open>d_type\<close>, and is \<open>None\<close> when \<^verbatim>\<open>opendir\<close> fails.
\<close>

record os =
  directoryExists :: "string \<Rightarrow> bool"
  createDirectory :: "string \<Rightarrow> bool"
  readdir :: "string \<Rightarrow> (nat \<times> string) list option"

definition DT_UNKNOWN :: nat where
  "DT_UNKNOWN = 0"

definition DT_REG :: nat where
  "DT_REG = 8"

text \<open>What a run of \<^verbatim>\<open>main\<close> leaves behind: its status, the calls of the converter it
  made (input path, output path, value returned), the two counters and the world the
  converter acts on.\<close>

record 'w main_run =
  status :: status
  invoked :: "(string \<times> string \<times> bool) list"
  successCount :: int
  failCount :: int
  world :: 'w

definition stop :: "status \<Rightarrow> 'w \<Rightarrow> 'w main_run" where
  "stop st w = \<lparr>status = st, invoked = [], successCount = 0, failCount = 0, world = w\<rparr>"

text \<open>
  The argument loop of the general \<^verbatim>\<open>main\<close> over \<^verbatim>\<open>argv[2..]\<close>, from the state
  \<^verbatim>\<open>(useSRGB, exposure)\<close>. \<^verbatim>\<open>std::stof\<close> is a parameter: \<open>None\<close> where it throws.
\<close>

fun parse_args :: "(string \<Rightarrow> float option) \<Rightarrow> string list \<Rightarrow> bool \<times> float
    \<Rightarrow> status + bool \<times> float" where
  "parse_args stof [] opts = Inr opts"
| "parse_args stof (arg # rest) (useSRGB, exposure) =
     (if arg = ''--linear'' then parse_args stof rest (False, exposure)
      else if arg = ''--exposure'' then
        (case rest of
           [] \<Rightarrow> Inl (Exit 1)
         | v # rest' \<Rightarrow>
             (case stof v of
                None \<Rightarrow> Inl Uncaught
              | Some e \<Rightarrow> parse_args stof rest' (useSRGB, e)))
      else parse_args stof rest (useSRGB, exposure))"

text \<open>
  From the directory argument to the list of candidates, the same text in both variants:
  the early exits, or the output directory and the candidates in the order found.
\<close>

definition discover :: "os \<Rightarrow> string \<Rightarrow> status + string \<times> string list" where
  "discover sys inputDir0 =
     (if inputDir0 = [] then Inl UndefinedBehaviour
      else
        (let inputDir = (if last inputDir0 \<noteq> CHR ''/'' \<and> last inputDir0 \<noteq> CHR 0x5C
                         then inputDir0 @ ''/'' else inputDir0) in
         if \<not> directoryExists sys inputDir then Inl (Exit 1)
         else
           (let outputDir0 = inputDir @ ''EXR'' in
            if \<not> directoryExists sys outputDir0 \<and> \<not> createDirectory sys outputDir0
            then Inl (Exit 1)
            else
              (let outputDir = (if last outputDir0 \<noteq> CHR ''/'' \<and> last outputDir0 \<noteq> CHR 0x5C
                                then outputDir0 @ ''/'' else outputDir0) in
               case readdir sys inputDir of
                 None \<Rightarrow> Inl (Exit 1)
               | Some entries \<Rightarrow>
                   Inr (outputDir,
                        map (\<lambda>(t, filename). inputDir @ filename)
                          (filter (\<lambda>(t, filename). (t = DT_REG \<or> t = DT_UNKNOWN)
                              \<and> is3frFile filename) entries))))))"

text \<open>The loop over the candidates. \<open>cv\<close> is the converter with the options of the run;
  it acts on a world \<open>w\<close> and returns \<^verbatim>\<open>true\<close> or \<^verbatim>\<open>false\<close>.\<close>

fun batch_loop :: "(string \<Rightarrow> string \<Rightarrow> 'w \<Rightarrow> bool \<times> 'w) \<Rightarrow> string \<Rightarrow> string list
    \<Rightarrow> 'w main_run \<Rightarrow> 'w main_run" where
  "batch_loop cv outputDir [] st = st"
| "batch_loop cv outputDir (inputFile # rest) st =
     (let basename = getBasename inputFile;
          outputFile = outputDir @ basename @ ''.exr'';
          (ok, w') = cv inputFile outputFile (world st) in
      batch_loop cv outputDir rest
        (if ok then
           st\<lparr>invoked := invoked st @ [(inputFile, outputFile, ok)],
              successCount := successCount st + 1, world := w'\<rparr>
         else
           st\<lparr>invoked := invoked st @ [(inputFile, outputFile, ok)],
              failCount := failCount st + 1, world := w'\<rparr>))"

definition batch :: "(string \<Rightarrow> string \<Rightarrow> 'w \<Rightarrow> bool \<times> 'w) \<Rightarrow> os \<Rightarrow> string \<Rightarrow> 'w
    \<Rightarrow> 'w main_run" where
  "batch cv sys inputDir0 w =
     (case discover sys inputDir0 of
        Inl st \<Rightarrow> stop st w
      | Inr (outputDir, threeFrFiles) \<Rightarrow>
          if threeFrFiles = [] then stop (Exit 0) w
          else
            (let st = batch_loop cv outputDir threeFrFiles (stop (Exit 0) w) in
             st\<lparr>status := Exit (if failCount st > 0 then 1 else 0)\<rparr>))"

text \<open>\<^verbatim>\<open>main\<close> of the general variant. \<open>conv\<close> stands for \<^verbatim>\<open>convert3frToExr\<close>: any
  function of the two paths, the two options and the world.\<close>

definition main :: "(string \<Rightarrow> string \<Rightarrow> bool \<Rightarrow> float \<Rightarrow> 'w \<Rightarrow> bool \<times> 'w) \<Rightarrow> os
    \<Rightarrow> (string \<Rightarrow> float option) \<Rightarrow> string list \<Rightarrow> 'w \<Rightarrow> 'w main_run" where
  "main conv sys stof argv w =
     (if length argv < 2 then stop (Exit 1) w
      else
        (case parse_args stof (drop 2 argv) (True, Fin 1) of
           Inl st \<Rightarrow> stop st w
         | Inr (useSRGB, exposure) \<Rightarrow>
             batch (\<lambda>inputFile outputFile. conv inputFile outputFile useSRGB exposure)
               sys (argv ! 1) w))"





section \<open>An example environment\<close>

text \<open>
  A directory \<^verbatim>\<open>in/\<close> with three candidates among five entries, a directory \<^verbatim>\<open>ok/\<close> with
  one candidate and a directory \<^verbatim>\<open>empty/\<close> with none; a converter that fails on
  \<^verbatim>\<open>in/B.3FR\<close> only and records the output path and the exposure of every file it
  converts; and an instance of \<^verbatim>\<open>std::stof\<close> for arguments that are decimal digits
  (on every other string it stands for a \<^verbatim>\<open>std::stof\<close> that throws).
\<close>

definition example_os :: os where
  "example_os =
     \<lparr>directoryExists = (\<lambda>p. p = ''in/'' \<or> p = ''ok/'' \<or> p = ''empty/''),
      createDirectory = (\<lambda>p. True),
      readdir = (\<lambda>p.
        if p = ''in/'' then
          Some [(8, ''a.3fr''), (4, ''dir.3fr''), (8, ''notes.txt''), (0, ''B.3FR''), (8, ''c.3fr'')]
        else if p = ''ok/'' then Some [(8, ''a.3fr'')]
        else if p = ''empty/'' then Some [(4, ''EXR''), (8, ''notes.txt'')]
        else None)\<rparr>"

definition example_conv :: "string \<Rightarrow> string \<Rightarrow> bool \<Rightarrow> float \<Rightarrow> (string \<times> float) list
    \<Rightarrow> bool \<times> (string \<times> float) list" where
  "example_conv inputFile outputFile useSRGB exposure w =
     (if inputFile = ''in/B.3FR'' then (False, w) else (True, w @ [(outputFile, exposure)]))"


definition digit_val :: "char \<Rightarrow> nat option" where
  "digit_val c =
     (let n = (of_char c :: nat) in if 48 \<le> n \<and> n \<le> 57 then Some (n - 48) else None)"

fun decimal :: "string \<Rightarrow> nat \<Rightarrow> nat option" where
  "decimal [] acc = Some acc"
| "decimal (c # cs) acc =
     (case digit_val c of None \<Rightarrow> None | Some d \<Rightarrow> decimal cs (10 * acc + d))"

definition stof_digits :: "string \<Rightarrow> float option" where
  "stof_digits s = (if s = [] then None else map_option (\<lambda>n. Fin (real n)) (decimal s 0))"

section \<open>Vocabulary for the converters\<close>

text \<open>
  The sample at an index of the buffer as the general converter reads it (16-bit samples
  when the bit depth is 16, bytes otherwise), the value it divides by, and the index of the
  sample behind channel \<open>k\<close> (0, 1, 2 for R, G, B) of the pixel that starts at \<open>idx\<close>.
\<close>

definition sample :: "processed_image \<Rightarrow> nat \<Rightarrow> nat option" where
  "sample img i =
     (if image_bits img = 16 then read_u16 (image_data img) i else read_u8 (image_data img) i)"

definition max_sample :: "processed_image \<Rightarrow> real" where
  "max_sample img = (if image_bits img = 16 then 65535 else 255)"

definition channel_index :: "nat \<Rightarrow> nat \<Rightarrow> nat \<Rightarrow> nat" where
  "channel_index colors idx k = (if 3 \<le> colors then idx + k else idx)"

text \<open>The value of a channel as it reaches the tone-mapping test: the sample \<open>s\<close>
  normalized and, if \<^verbatim>\<open>useSRGB\<close>, linearized.\<close>

definition before_compression :: "bool \<Rightarrow> processed_image \<Rightarrow> nat \<Rightarrow> float" where
  "before_compression useSRGB img s =
     (if useSRGB then applySRGBInverse (fdiv (Fin (real s)) (Fin (max_sample img)))
      else fdiv (Fin (real s)) (Fin (max_sample img)))"

definition rgb :: "rgba \<Rightarrow> float list" where
  "rgb p = [px_r p, px_g p, px_b p]"

text \<open>
  A buffer that the loops of the general converter can read in full: it has at least one
  channel, its data has room for height times width pixels of that many samples each (two
  bytes a sample when the bit depth is 16; for every other depth the general converter reads
  one byte a sample), and it has fewer than \<open>2\<^sup>3\<^sup>1\<close> samples, so that every index of a
  sample fits an \<^verbatim>\<open>int\<close>.
\<close>

definition well_formed :: "processed_image \<Rightarrow> bool" where
  "well_formed img \<longleftrightarrow>
     1 \<le> image_colors img
     \<and> image_height img * image_width img * image_colors img
           * (if image_bits img = 16 then 2 else 1) \<le> length (image_data img)
     \<and> image_height img * image_width img * image_colors img < 2 ^ 31"

text \<open>The calls up to the processing of the raw data: opening, the assignments to the
  geometry, unpacking, processing.\<close>

fun session_call :: "call \<Rightarrow> bool" where
  "session_call (OpenFile _) = True"
| "session_call (SetGeometry _) = True"
| "session_call (Unpack _) = True"
| "session_call (DcrawProcess _) = True"
| "session_call _ = False"

fun encoder_call :: "call \<Rightarrow> bool" where
  "encoder_call (ExrOpen _ _ _) = True"
| "encoder_call (ExrWritePixels _ _) = True"
| "encoder_call _ = False"

section \<open>An example decoder\<close>

text \<open>
  A sensor of 2 by 1 photosites of which the decoder would show 1 by 1. The decoder answers
  a buffer of the size the session has when it is asked, in a format that depends on the
  file: three 16-bit channels, or one 16-bit channel (\<^verbatim>\<open>gray.3fr\<close>), one 8-bit channel
  (\<^verbatim>\<open>gray8.3fr\<close>), three 8-bit channels (\<^verbatim>\<open>rgb8.3fr\<close>). \<^verbatim>\<open>bad.3fr\<close> cannot be opened
  and \<^verbatim>\<open>cut.3fr\<close> cannot be unpacked. The encoder fails in \<^verbatim>\<open>writePixels\<close> for the
  output \<^verbatim>\<open>full.exr\<close>.
\<close>

definition example_data :: libraw_data where
  "example_data =
     \<lparr>sizes = \<lparr>raw_height = 1, raw_width = 2, height = 1, width = 1, top_margin = 0,
               left_margin = 1, iheight = 1, iwidth = 1\<rparr>,
      params = \<lparr>use_auto_wb = 1, use_camera_wb = 0, no_auto_bright = 0, output_color = 1,
                output_bps = 8, user_flip = - 1, user_qual = - 1, four_color_rgb = 0,
                highlight = 0, use_fuji_rotate = 1, gamm0 = 0.45, gamm1 = 4.5, bright = 1\<rparr>\<rparr>"

definition example_image :: "string \<Rightarrow> libraw_data \<Rightarrow> processed_image" where
  "example_image inputPath d =
     (let w = width (sizes d); h = height (sizes d);
          colors = (if inputPath = ''gray.3fr'' \<or> inputPath = ''gray8.3fr'' then 1 else 3);
          bits = (if inputPath = ''gray8.3fr'' \<or> inputPath = ''rgb8.3fr'' then 8 else 16) in
      \<lparr>image_height = h, image_width = w, image_colors = colors, image_bits = bits,
       image_data = map (\<lambda>i. of_nat (37 * i + 5)) [0..<w * h * colors * (bits div 8)]\<rparr>)"

definition example_libraw :: libraw where
  "example_libraw =
     \<lparr>open_file = (\<lambda>p. (if p = ''bad.3fr'' then - 2 else 0, example_data)),
      unpack = (\<lambda>p d. (if p = ''cut.3fr'' then - 4 else 0, d)),
      dcraw_process = (\<lambda>p d. (0, d)),
      dcraw_make_mem_image = (\<lambda>p d. Some (example_image p d))\<rparr>"

text \<open>The session of the example after the general converter, and after the full-sensor
  converter, has set geometry and parameters.\<close>

definition example_session :: libraw_data where
  "example_session =
     example_data\<lparr>sizes := force_full_sensor (sizes example_data),
                   params := general_params (params example_data)\<rparr>"

definition example_session_fs :: libraw_data where
  "example_session_fs =
     example_data\<lparr>params := full_sensor_params (params example_data),
                   sizes := use_full_sensor (sizes example_data)\<rparr>"

definition example_exr :: "string \<Rightarrow> exr_fault" where
  "example_exr outputPath = (if outputPath = ''full.exr'' then WriteThrows else NoFault)"

section \<open>Properties of the batch program\<close>




















subsection \<open>The argument loop\<close>

lemma parse_args_skip:
  "arg \<noteq> ''--linear'' \<Longrightarrow> arg \<noteq> ''--exposure'' \<Longrightarrow>
     parse_args stof (arg # rest) opts = parse_args stof rest opts"
  by (cases opts) simp

lemma parse_args_append:
  "parse_args stof pre opts = Inr opts' \<Longrightarrow>
     parse_args stof (pre @ ys) opts = parse_args stof ys opts'"
proof (induction stof pre opts rule: parse_args.induct)
  case (1 stof opts)
  then show ?case by simp
next
  case (2 stof arg rest useSRGB exposure)
  then show ?case
    by (auto split: if_splits list.splits option.splits)
qed

lemma parse_args_usage:
  "parse_args stof args opts = Inl (Exit 1) \<longleftrightarrow>
     (\<exists>pre opts'. args = pre @ [''--exposure''] \<and> parse_args stof pre opts = Inr opts')"
proof
  show "parse_args stof args opts = Inl (Exit 1) \<Longrightarrow>
     \<exists>pre opts'. args = pre @ [''--exposure''] \<and> parse_args stof pre opts = Inr opts'"
  proof (induction stof args opts rule: parse_args.induct)
    case (1 stof opts)
    then show ?case by simp
  next
    case (2 stof arg rest useSRGB exposure)
    show ?case
    proof (cases "arg = ''--linear''")
      case True
      with 2 obtain pre opts' where "rest = pre @ [''--exposure'']"
        "parse_args stof pre (False, exposure) = Inr opts'" by auto
      then have "arg # rest = (arg # pre) @ [''--exposure''] \<and>
          parse_args stof (arg # pre) (useSRGB, exposure) = Inr opts'"
        using True by simp
      then show ?thesis by blast
    next
      case nl: False
      show ?thesis
      proof (cases "arg = ''--exposure''")
        case False
        with 2 nl obtain pre opts' where "rest = pre @ [''--exposure'']"
          "parse_args stof pre (useSRGB, exposure) = Inr opts'" by auto
        then have "arg # rest = (arg # pre) @ [''--exposure''] \<and>
            parse_args stof (arg # pre) (useSRGB, exposure) = Inr opts'"
          using False nl by simp
        then show ?thesis by blast
      next
        case True
        show ?thesis
        proof (cases rest)
          case Nil
          then have "arg # rest = [] @ [''--exposure''] \<and>
              parse_args stof [] (useSRGB, exposure) = Inr (useSRGB, exposure)"
            using True by simp
          then show ?thesis by blast
        next
          case (Cons v rest')
          with 2 True nl obtain e where e: "stof v = Some e"
            by (auto split: option.splits)
          have p: "parse_args stof rest' (useSRGB, e) = Inl (Exit 1)"
            using "2.prems" True nl Cons e by simp
          from "2.IH"(2) [OF nl True Cons e p] obtain pre opts' where
            "rest' = pre @ [''--exposure'']" "parse_args stof pre (useSRGB, e) = Inr opts'"
            by blast
          then have "arg # rest = (arg # v # pre) @ [''--exposure''] \<and>
              parse_args stof (arg # v # pre) (useSRGB, exposure) = Inr opts'"
            using True Cons e by simp
          then show ?thesis by blast
        qed
      qed
    qed
  qed
next
  assume "\<exists>pre opts'. args = pre @ [''--exposure''] \<and> parse_args stof pre opts = Inr opts'"
  then obtain pre opts' where "args = pre @ [''--exposure'']" "parse_args stof pre opts = Inr opts'"
    by blast
  then show "parse_args stof args opts = Inl (Exit 1)"
    using parse_args_append [of stof pre opts opts' "[''--exposure'']"]
    by (cases opts') simp
qed


text \<open>
  C9 (amended). The argument loop examines the tokens after the input directory in turn,
  except the token that directly follows an examined \<^verbatim>\<open>--exposure\<close>: that token is passed
  to \<^verbatim>\<open>std::stof\<close> as the value of the option. An examined token that is neither
  \<^verbatim>\<open>--linear\<close> nor \<^verbatim>\<open>--exposure\<close> is skipped, and the run is the run without it. The loop
  ends the program with status 1, before any processing, exactly when the last token is an
  examined \<^verbatim>\<open>--exposure\<close>.
\<close>

theorem unexamined_options_are_skipped:
  "(parse_args stof pre (True, Fin 1) = Inr opts \<and> arg \<noteq> ''--linear'' \<and> arg \<noteq> ''--exposure''
      \<longrightarrow> main conv sys stof (prog # dir # pre @ arg # post) w
            = main conv sys stof (prog # dir # pre @ post) w)
   \<and> (parse_args stof args (True, Fin 1) = Inl (Exit 1)
        \<longleftrightarrow> (\<exists>pre opts. args = pre @ [''--exposure'']
               \<and> parse_args stof pre (True, Fin 1) = Inr opts))
   \<and> (parse_args stof args (True, Fin 1) = Inl (Exit 1)
        \<longrightarrow> main conv sys stof (prog # dir # args) w = stop (Exit 1) w)
   \<and> (parse_args stof pre (True, Fin 1) = Inr (useSRGB, exposure)
        \<longrightarrow> parse_args stof (pre @ ''--exposure'' # v # post) (True, Fin 1)
            = (case stof v of None \<Rightarrow> Inl Uncaught
               | Some e \<Rightarrow> parse_args stof post (useSRGB, e)))"
proof (intro conjI impI)
  assume a: "parse_args stof pre (True, Fin 1) = Inr opts \<and> arg \<noteq> ''--linear''
      \<and> arg \<noteq> ''--exposure''"
  then have "parse_args stof (pre @ arg # post) (True, Fin 1) = parse_args stof (arg # post) opts"
    by (simp add: parse_args_append)
  also have "\<dots> = parse_args stof post opts"
    using a by (simp add: parse_args_skip)
  also have "\<dots> = parse_args stof (pre @ post) (True, Fin 1)"
    using a by (simp add: parse_args_append)
  finally show "main conv sys stof (prog # dir # pre @ arg # post) w
            = main conv sys stof (prog # dir # pre @ post) w"
    by (simp add: main_def split: sum.splits prod.splits)
next
  show "parse_args stof args (True, Fin 1) = Inl (Exit 1)
        \<longleftrightarrow> (\<exists>pre opts. args = pre @ [''--exposure'']
               \<and> parse_args stof pre (True, Fin 1) = Inr opts)"
    by (rule parse_args_usage)
next
  assume "parse_args stof args (True, Fin 1) = Inl (Exit 1)"
  then show "main conv sys stof (prog # dir # args) w = stop (Exit 1) w"
    by (simp add: main_def)
next
  assume "parse_args stof pre (True, Fin 1) = Inr (useSRGB, exposure)"
  then show "parse_args stof (pre @ ''--exposure'' # v # post) (True, Fin 1)
            = (case stof v of None \<Rightarrow> Inl Uncaught
               | Some e \<Rightarrow> parse_args stof post (useSRGB, e))"
    by (simp add: parse_args_append)
qed

text \<open>An unknown option after \<^verbatim>\<open>--linear --exposure 2\<close> changes nothing; a trailing
  \<^verbatim>\<open>--exposure\<close> is a usage error; a value that is not a number is an uncaught
  exception.\<close>

theorem unexamined_options_are_skipped_witness:
  "parse_args stof_digits [''--linear'', ''--exposure'', ''2''] (True, Fin 1) = Inr (False, Fin 2)
   \<and> main example_conv example_os stof_digits
        (''prog'' # ''ok'' # [''--linear'', ''--exposure'', ''2''] @ ''--verbose'' # [''-x'']) []
      = main example_conv example_os stof_digits
        (''prog'' # ''ok'' # [''--linear'', ''--exposure'', ''2''] @ [''-x'']) []
   \<and> parse_args stof_digits [''--linear'', ''--exposure''] (True, Fin 1) = Inl (Exit 1)
   \<and> main example_conv example_os stof_digits (''prog'' # ''ok'' # [''--linear'', ''--exposure'']) []
      = stop (Exit 1) []
   \<and> parse_args stof_digits ([''--linear'', ''--exposure'', ''2''] @ ''--exposure'' # ''x'' # [''-x''])
        (True, Fin 1) = Inl Uncaught"
proof -
  have p: "parse_args stof_digits [''--linear'', ''--exposure'', ''2''] (True, Fin 1)
      = Inr (False, Fin 2)"
    by code_simp
  have n: "''--verbose'' \<noteq> ''--linear'' \<and> ''--verbose'' \<noteq> ''--exposure''"
    by simp
  have q: "parse_args stof_digits [''--linear'', ''--exposure''] (True, Fin 1) = Inl (Exit 1)"
    by code_simp
  have x: "stof_digits ''x'' = None"
    by code_simp
  note t = unexamined_options_are_skipped [where stof = stof_digits
        and pre = "[''--linear'', ''--exposure'', ''2'']" and opts = "(False, Fin 2)"
        and arg = "''--verbose''" and conv = example_conv and sys = example_os
        and prog = "''prog''" and dir = "''ok''" and post = "[''-x'']" and w = "[]"
        and args = "[''--linear'', ''--exposure'']" and useSRGB = False and exposure = "Fin 2"
        and v = "''x''"]
  from t p n have c1: "main example_conv example_os stof_digits
        (''prog'' # ''ok'' # [''--linear'', ''--exposure'', ''2''] @ ''--verbose'' # [''-x'']) []
      = main example_conv example_os stof_digits
        (''prog'' # ''ok'' # [''--linear'', ''--exposure'', ''2''] @ [''-x'']) []"
    by blast
  from t q have c3: "main example_conv example_os stof_digits
        (''prog'' # ''ok'' # [''--linear'', ''--exposure'']) [] = stop (Exit 1) []"
    by blast
  from t p have "parse_args stof_digits
        ([''--linear'', ''--exposure'', ''2''] @ ''--exposure'' # ''x'' # [''-x'']) (True, Fin 1)
      = (case stof_digits ''x'' of None \<Rightarrow> Inl Uncaught
         | Some e \<Rightarrow> parse_args stof_digits [''-x''] (False, e))"
    by blast
  then have c4: "parse_args stof_digits
        ([''--linear'', ''--exposure'', ''2''] @ ''--exposure'' # ''x'' # [''-x'']) (True, Fin 1)
      = Inl Uncaught"
    by (simp only: x option.case)
  from p c1 q c3 c4 show ?thesis by blast
qed

text \<open>
  C9 as stated fails: in \<^verbatim>\<open>prog ok --exposure 2\<close> the token \<^verbatim>\<open>2\<close> is neither of the two
  options, and it is not ignored. With it the file is converted at exposure 2 and the program
  exits with status 0; without it the program exits with status 1.
\<close>

theorem exposure_value_is_not_skipped:
  "''2'' \<noteq> ''--linear'' \<and> ''2'' \<noteq> ''--exposure''
   \<and> main example_conv example_os stof_digits [''prog'', ''ok'', ''--exposure'', ''2''] []
       = \<lparr>status = Exit 0, invoked = [(''ok/a.3fr'', ''ok/EXR/a.exr'', True)],
          successCount = 1, failCount = 0, world = [(''ok/EXR/a.exr'', Fin 2)]\<rparr>
   \<and> main example_conv example_os stof_digits [''prog'', ''ok'', ''--exposure''] []
       = \<lparr>status = Exit 1, invoked = [], successCount = 0, failCount = 0, world = []\<rparr>"
  by code_simp

section \<open>Properties of the converters\<close>

subsection \<open>The pixel loops\<close>

lemma those_nth:
  "those xs = Some ys \<Longrightarrow> length ys = length xs \<and> (\<forall>i<length xs. xs ! i = Some (ys ! i))"
proof (induction xs arbitrary: ys)
  case Nil
  then show ?case by simp
next
  case (Cons x xs)
  then obtain y ys' where y: "x = Some y" "those xs = Some ys'" "ys = y # ys'"
    by (auto split: option.splits)
  with Cons.IH [of ys'] show ?case
    by (auto simp: nth_Cons split: nat.splits)
qed

lemma scan_nth:
  assumes "scan h w f = Some px"
  shows "length px = h"
    and "y < h \<Longrightarrow> length (px ! y) = w"
    and "y < h \<Longrightarrow> x < w \<Longrightarrow> f y x = Some (px ! y ! x)"
proof -
  from assms have t: "those (map (\<lambda>y. those (map (\<lambda>x. f y x) [0..<w])) [0..<h]) = Some px"
    by (simp add: scan_def)
  from those_nth [OF t] show "length px = h" by simp
  {
    assume y: "y < h"
    from those_nth [OF t] y have r: "those (map (\<lambda>x. f y x) [0..<w]) = Some (px ! y)"
      by simp
    from those_nth [OF r] show "length (px ! y) = w" by simp
    assume "x < w"
    with those_nth [OF r] show "f y x = Some (px ! y ! x)" by simp
  }
qed

lemma convert_pixels_nth:
  assumes "convert_pixels useSRGB exposure img = Some px"
  shows "length px = image_height img"
    and "y < image_height img \<Longrightarrow> length (px ! y) = image_width img"
    and "y < image_height img \<Longrightarrow> x < image_width img \<Longrightarrow>
      pixel_index (image_width img) (image_colors img) y x
          = Some ((y * image_width img + x) * image_colors img)
      \<and> pixel useSRGB exposure (sample img) (max_sample img) (image_colors img)
            ((y * image_width img + x) * image_colors img) = Some (px ! y ! x)"
proof -
  let ?f = "\<lambda>y x. case pixel_index (image_width img) (image_colors img) y x of None \<Rightarrow> None
          | Some idx \<Rightarrow> pixel useSRGB exposure (sample img) (max_sample img) (image_colors img) idx"
  have s: "scan (image_height img) (image_width img) ?f = Some px"
  proof (cases "image_bits img = 16")
    case True
    then have "sample img = read_u16 (image_data img)"
      by (intro ext) (simp add: sample_def)
    moreover from True have "max_sample img = 65535"
      by (simp add: max_sample_def)
    ultimately show ?thesis
      using assms True by (simp add: convert_pixels_def Let_def cong: option.case_cong)
  next
    case False
    then have "sample img = read_u8 (image_data img)"
      by (intro ext) (simp add: sample_def)
    moreover from False have "max_sample img = 255"
      by (simp add: max_sample_def)
    ultimately show ?thesis
      using assms False by (simp add: convert_pixels_def Let_def cong: option.case_cong)
  qed
  from scan_nth(1) [OF s] show "length px = image_height img" .
  {
    assume y: "y < image_height img"
    from scan_nth(2) [OF s y] show "length (px ! y) = image_width img" .
    assume x: "x < image_width img"
    from scan_nth(3) [OF s y x] have "?f y x = Some (px ! y ! x)" .
    then show "pixel_index (image_width img) (image_colors img) y x
          = Some ((y * image_width img + x) * image_colors img)
      \<and> pixel useSRGB exposure (sample img) (max_sample img) (image_colors img)
            ((y * image_width img + x) * image_colors img) = Some (px ! y ! x)"
      by (auto simp: pixel_index_def split: option.splits if_splits)
  }
qed

lemma pixel_rgb:
  assumes "pixel useSRGB exposure rd maxv colors idx = Some p" and "3 \<le> colors"
  shows "\<exists>sr sg sb. rd idx = Some sr \<and> rd (idx + 1) = Some sg \<and> rd (idx + 2) = Some sb
           \<and> p = \<lparr>px_r = channel useSRGB exposure (fdiv (Fin (real sr)) (Fin maxv)),
                    px_g = channel useSRGB exposure (fdiv (Fin (real sg)) (Fin maxv)),
                    px_b = channel useSRGB exposure (fdiv (Fin (real sb)) (Fin maxv)),
                    px_a = Fin 1\<rparr>"
proof -
  from assms have c: "(case (rd idx, rd (idx + 1), rd (idx + 2)) of
           (Some sr, Some sg, Some sb) \<Rightarrow>
             Some \<lparr>px_r = channel useSRGB exposure (fdiv (Fin (real sr)) (Fin maxv)),
                   px_g = channel useSRGB exposure (fdiv (Fin (real sg)) (Fin maxv)),
                   px_b = channel useSRGB exposure (fdiv (Fin (real sb)) (Fin maxv)),
                   px_a = Fin 1\<rparr>
         | _ \<Rightarrow> None) = Some p"
    by (simp add: pixel_def)
  obtain sr where sr: "rd idx = Some sr"
    using c by (cases "rd idx") simp_all
  obtain sg where sg: "rd (idx + 1) = Some sg"
    using c sr by (cases "rd (idx + 1)") simp_all
  obtain sb where sb: "rd (idx + 2) = Some sb"
    using c sr sg by (cases "rd (idx + 2)") simp_all
  from c show ?thesis
    unfolding sr sg sb by simp
qed


lemma pixel_gray:
  assumes "pixel useSRGB exposure rd maxv colors idx = Some p" and "colors < 3"
  shows "\<exists>s. rd idx = Some s
           \<and> p = \<lparr>px_r = channel useSRGB exposure (fdiv (Fin (real s)) (Fin maxv)),
                    px_g = channel useSRGB exposure (fdiv (Fin (real s)) (Fin maxv)),
                    px_b = channel useSRGB exposure (fdiv (Fin (real s)) (Fin maxv)),
                    px_a = Fin 1\<rparr>"
  using assms by (cases "rd idx") (simp_all add: pixel_def Let_def)

lemma pixel_alpha:
  assumes "pixel useSRGB exposure rd maxv colors idx = Some p"
  shows "px_a p = Fin 1"
proof (cases "3 \<le> colors")
  case True
  from pixel_rgb [OF assms True] obtain sr sg sb where
    "p = \<lparr>px_r = channel useSRGB exposure (fdiv (Fin (real sr)) (Fin maxv)),
          px_g = channel useSRGB exposure (fdiv (Fin (real sg)) (Fin maxv)),
          px_b = channel useSRGB exposure (fdiv (Fin (real sb)) (Fin maxv)),
          px_a = Fin 1\<rparr>"
    by blast
  then show ?thesis by simp
next
  case False
  then have "colors < 3" by simp
  from pixel_gray [OF assms this] obtain s where
    "p = \<lparr>px_r = channel useSRGB exposure (fdiv (Fin (real s)) (Fin maxv)),
          px_g = channel useSRGB exposure (fdiv (Fin (real s)) (Fin maxv)),
          px_b = channel useSRGB exposure (fdiv (Fin (real s)) (Fin maxv)),
          px_a = Fin 1\<rparr>"
    by blast
  then show ?thesis by simp
qed

lemma pixel_channels:
  assumes "pixel useSRGB exposure rd maxv colors idx = Some p" and "k < 3"
  shows "\<exists>s. rd (channel_index colors idx k) = Some s
           \<and> rgb p ! k = channel useSRGB exposure (fdiv (Fin (real s)) (Fin maxv))"
proof (cases "3 \<le> colors")
  case True
  from pixel_rgb [OF assms(1) True] obtain sr sg sb where
    r: "rd idx = Some sr" "rd (idx + 1) = Some sg" "rd (idx + 2) = Some sb" and
    p: "p = \<lparr>px_r = channel useSRGB exposure (fdiv (Fin (real sr)) (Fin maxv)),
          px_g = channel useSRGB exposure (fdiv (Fin (real sg)) (Fin maxv)),
          px_b = channel useSRGB exposure (fdiv (Fin (real sb)) (Fin maxv)),
          px_a = Fin 1\<rparr>"
    by blast
  from assms(2) consider "k = 0" | "k = 1" | "k = 2" by linarith
  then show ?thesis
  proof cases
    assume "k = 0"
    then show ?thesis using True r(1) by (simp add: p rgb_def channel_index_def)
  next
    assume "k = 1"
    then show ?thesis using True r(2) by (simp add: p rgb_def channel_index_def)
  next
    assume "k = 2"
    then show ?thesis using True r(3) by (simp add: p rgb_def channel_index_def)
  qed
next
  case False
  then have "colors < 3" by simp
  from pixel_gray [OF assms(1) this] obtain s where
    r: "rd idx = Some s" and
    p: "p = \<lparr>px_r = channel useSRGB exposure (fdiv (Fin (real s)) (Fin maxv)),
          px_g = channel useSRGB exposure (fdiv (Fin (real s)) (Fin maxv)),
          px_b = channel useSRGB exposure (fdiv (Fin (real s)) (Fin maxv)),
          px_a = Fin 1\<rparr>"
    by blast
  from assms(2) consider "k = 0" | "k = 1" | "k = 2" by linarith
  then show ?thesis
    using False r by cases (simp_all add: p rgb_def channel_index_def)
qed

text \<open>The loops have a result on every well-formed buffer: no index leaves the range of
  \<^verbatim>\<open>int\<close> and no read leaves the data.\<close>

lemma those_total:
  "(\<And>x. x \<in> set xs \<Longrightarrow> x \<noteq> None) \<Longrightarrow> \<exists>ys. those xs = Some ys"
proof (induction xs)
  case Nil
  then show ?case by simp
next
  case (Cons x xs)
  then obtain y where "x = Some y" by auto
  moreover from Cons obtain ys where "those xs = Some ys" by auto
  ultimately show ?case by simp
qed

lemma scan_total:
  assumes "\<And>y x. y < h \<Longrightarrow> x < w \<Longrightarrow> f y x \<noteq> None"
  shows "\<exists>px. scan h w f = Some px"
proof -
  have "those (map (\<lambda>x. f y x) [0..<w]) \<noteq> None" if "y < h" for y
  proof -
    have "\<exists>ys. those (map (\<lambda>x. f y x) [0..<w]) = Some ys"
      using assms that by (intro those_total) auto
    then show ?thesis by auto
  qed
  then have "\<exists>px. those (map (\<lambda>y. those (map (\<lambda>x. f y x) [0..<w])) [0..<h]) = Some px"
    by (intro those_total) auto
  then show ?thesis by (simp add: scan_def)
qed

lemma pixel_position:
  fixes h w c y x :: nat
  assumes "y < h" "x < w"
  shows "y * w + x < h * w" and "(y * w + x) * c + c \<le> h * w * c"
proof -
  have "y * w + x < y * w + w" using assms(2) by simp
  also have "\<dots> = Suc y * w" by simp
  also have "\<dots> \<le> h * w" using assms(1) by (intro mult_le_mono1) simp
  finally show p: "y * w + x < h * w" .
  have "(y * w + x) * c + c = Suc (y * w + x) * c" by simp
  also have "\<dots> \<le> (h * w) * c" using p by (intro mult_le_mono1) simp
  finally show "(y * w + x) * c + c \<le> h * w * c" .
qed

lemma sample_total:
  assumes "well_formed img" and "i < image_height img * image_width img * image_colors img"
  shows "\<exists>s. sample img i = Some s"
  using assms by (auto simp: well_formed_def sample_def read_u16_def read_u8_def split: if_splits)


lemma pixel_total:
  assumes "well_formed img" and "y < image_height img" and "x < image_width img"
  shows "pixel_index (image_width img) (image_colors img) y x
           = Some ((y * image_width img + x) * image_colors img)"
    and "\<exists>p. pixel useSRGB exposure (sample img) (max_sample img) (image_colors img)
               ((y * image_width img + x) * image_colors img) = Some p"
proof -
  define c where "c = image_colors img"
  define n where "n = image_height img * image_width img * image_colors img"
  define k where "k = y * image_width img + x"
  define i where "i = (y * image_width img + x) * image_colors img"
  from assms(1) have c: "1 \<le> c" and n: "n < 2 ^ 31"
    by (simp_all add: well_formed_def c_def n_def)
  have s: "\<exists>s. sample img j = Some s" if "j < n" for j
    using sample_total [OF assms(1), of j] that by (simp add: n_def)
  have "k < image_height img * image_width img"
    unfolding k_def by (rule pixel_position(1) [OF assms(2,3)])
  moreover have "image_height img * image_width img \<le> n"
    unfolding n_def using c by (simp add: c_def)
  ultimately have kn: "k < n" by linarith
  have ic: "i + c \<le> n"
    unfolding i_def c_def n_def by (rule pixel_position(2) [OF assms(2,3)])
  have a: "k < 2 ^ 31"
    using kn n by linarith
  have b: "i + (if 3 \<le> c then 2 else 0) < 2 ^ 31"
  proof (cases "3 \<le> c")
    case True
    with ic n show ?thesis by simp
  next
    case False
    with ic n c show ?thesis by simp
  qed
  from a b show "pixel_index (image_width img) (image_colors img) y x
           = Some ((y * image_width img + x) * image_colors img)"
    unfolding pixel_index_def k_def i_def c_def by (simp only: simp_thms if_True)
  show "\<exists>p. pixel useSRGB exposure (sample img) (max_sample img) (image_colors img)
               ((y * image_width img + x) * image_colors img) = Some p"
  proof (cases "3 \<le> c")
    case True
    from True ic have i0: "i < n" by linarith
    from True ic have i1: "i + 1 < n" by linarith
    from True ic have i2: "i + 2 < n" by linarith
    from s [OF i0] obtain sr where r0: "sample img i = Some sr" ..
    from s [OF i1] obtain sg where r1: "sample img (i + 1) = Some sg" ..
    from s [OF i2] obtain sb where r2: "sample img (i + 2) = Some sb" ..
    note r = r0 r1 r2
    have "pixel useSRGB exposure (sample img) (max_sample img) c i
        = Some \<lparr>px_r = channel useSRGB exposure (fdiv (Fin (real sr)) (Fin (max_sample img))),
                 px_g = channel useSRGB exposure (fdiv (Fin (real sg)) (Fin (max_sample img))),
                 px_b = channel useSRGB exposure (fdiv (Fin (real sb)) (Fin (max_sample img))),
                 px_a = Fin 1\<rparr>"
      unfolding pixel_def r using True by simp
    then show ?thesis
      unfolding c_def i_def by blast
  next
    case False
    from ic c have i0: "i < n" by linarith
    from s [OF i0] obtain g where r: "sample img i = Some g" ..
    have "pixel useSRGB exposure (sample img) (max_sample img) c i
        = Some \<lparr>px_r = channel useSRGB exposure (fdiv (Fin (real g)) (Fin (max_sample img))),
                 px_g = channel useSRGB exposure (fdiv (Fin (real g)) (Fin (max_sample img))),
                 px_b = channel useSRGB exposure (fdiv (Fin (real g)) (Fin (max_sample img))),
                 px_a = Fin 1\<rparr>"
      unfolding pixel_def r using False by (simp add: Let_def)
    then show ?thesis
      unfolding c_def i_def by blast
  qed
qed

lemma convert_pixels_scan:
  "convert_pixels useSRGB exposure img =
     scan (image_height img) (image_width img)
       (\<lambda>y x. case pixel_index (image_width img) (image_colors img) y x of None \<Rightarrow> None
          | Some idx \<Rightarrow>
              pixel useSRGB exposure (sample img) (max_sample img) (image_colors img) idx)"
proof (cases "image_bits img = 16")
  case True
  then have "sample img = read_u16 (image_data img)"
    by (intro ext) (simp add: sample_def)
  moreover from True have "max_sample img = 65535"
    by (simp add: max_sample_def)
  ultimately show ?thesis
    using True by (simp add: convert_pixels_def Let_def cong: option.case_cong)
next
  case False
  then have "sample img = read_u8 (image_data img)"
    by (intro ext) (simp add: sample_def)
  moreover from False have "max_sample img = 255"
    by (simp add: max_sample_def)
  ultimately show ?thesis
    using False by (simp add: convert_pixels_def Let_def cong: option.case_cong)
qed

lemma convert_pixels_total:
  assumes "well_formed img"
  shows "\<exists>px. convert_pixels useSRGB exposure img = Some px"
proof -
  have "(case pixel_index (image_width img) (image_colors img) y x of None \<Rightarrow> None
          | Some idx \<Rightarrow>
              pixel useSRGB exposure (sample img) (max_sample img) (image_colors img) idx)
        \<noteq> None"
    if "y < image_height img" "x < image_width img" for y x
    using pixel_total(1) [OF assms that] pixel_total(2) [OF assms that, of useSRGB exposure]
    by auto
  from scan_total [of "image_height img" "image_width img", OF this] show ?thesis
    by (simp add: convert_pixels_scan)
qed

subsection \<open>The encode stage\<close>

lemma fne_one: "fne e (Fin 1) \<longleftrightarrow> e \<noteq> Fin 1"
  by (cases e) simp_all

lemma channel_stage:
  "channel useSRGB exposure v0 =
     (let v = (if useSRGB then applySRGBInverse v0 else v0) in
      if exposure = Fin 1 then v else simpleToneMap v exposure)"
  by (simp add: channel_def fne_one Let_def)

lemma exr_stage_NoFault:
  "exr outputPath = NoFault \<Longrightarrow>
   exr_stage exr outputPath useSRGB exposure img tr files =
     (case convert_pixels useSRGB exposure img of
        None \<Rightarrow> None
      | Some px \<Rightarrow>
          Some \<lparr>returned = True,
                calls = tr @ [ExrOpen outputPath (image_width img) (image_height img),
                              ExrWritePixels outputPath (image_height img), ClearMem],
                disk = files(outputPath \<mapsto> Complete (image_width img) (image_height img) px)\<rparr>)"
  by (simp add: exr_stage_def Let_def split: option.splits)

lemma exr_stage_WriteThrows:
  "exr outputPath = WriteThrows \<Longrightarrow>
   exr_stage exr outputPath useSRGB exposure img tr files =
     (case convert_pixels useSRGB exposure img of
        None \<Rightarrow> None
      | Some px \<Rightarrow>
          Some \<lparr>returned = False,
                calls = tr @ [ExrOpen outputPath (image_width img) (image_height img),
                              ExrWritePixels outputPath (image_height img), ClearMem],
                disk = files(outputPath \<mapsto> Incomplete)\<rparr>)"
  by (simp add: exr_stage_def Let_def split: option.splits)

lemma exr_stage_returned:
  assumes "exr_stage exr outputPath useSRGB exposure img tr files = Some rn" and "returned rn"
  shows "\<exists>px. convert_pixels useSRGB exposure img = Some px
           \<and> disk rn = files(outputPath \<mapsto> Complete (image_width img) (image_height img) px)"
proof (cases "exr outputPath")
  case NoFault
  with assms show ?thesis
    by (cases "convert_pixels useSRGB exposure img") (auto simp: exr_stage_NoFault)
next
  case OpenThrows
  with assms show ?thesis by (auto simp: exr_stage_def Let_def)
next
  case AllocThrows
  with assms show ?thesis by (auto simp: exr_stage_def Let_def)
next
  case WriteThrows
  with assms show ?thesis
    by (cases "convert_pixels useSRGB exposure img") (auto simp: exr_stage_WriteThrows)
qed

lemma convert_after_decode:
  "decode lr inputPath = (tr, Some img) \<Longrightarrow>
     convert3frToExr lr exr inputPath outputPath useSRGB exposure files
       = exr_stage exr outputPath useSRGB exposure img tr files"
  by (simp add: convert3frToExr_def)

lemma convert_decode_failed:
  "decode lr inputPath = (tr, None) \<Longrightarrow>
     convert3frToExr lr exr inputPath outputPath useSRGB exposure files
       = Some \<lparr>returned = False, calls = tr, disk = files\<rparr>"
  by (simp add: convert3frToExr_def)

lemma convert_written:
  assumes "decode lr inputPath = (tr, Some img)"
    and "convert3frToExr lr exr inputPath outputPath useSRGB exposure files = Some rn"
    and "returned rn"
  shows "\<exists>px. convert_pixels useSRGB exposure img = Some px
           \<and> disk rn outputPath = Some (Complete (image_width img) (image_height img) px)"
proof -
  from assms have "exr_stage exr outputPath useSRGB exposure img tr files = Some rn"
    by (simp add: convert_after_decode)
  from exr_stage_returned [OF this assms(3)] show ?thesis by auto
qed

lemma convert_total:
  assumes "decode lr inputPath = (tr, Some img)" and "well_formed img"
    and "exr outputPath = NoFault"
  shows "\<exists>rn. convert3frToExr lr exr inputPath outputPath useSRGB exposure files = Some rn
           \<and> returned rn"
proof -
  from convert_pixels_total [OF assms(2)] obtain px where
    "convert_pixels useSRGB exposure img = Some px" by blast
  then show ?thesis
    by (simp add: convert_after_decode [OF assms(1)]
        exr_stage_NoFault [where exr = exr and outputPath = outputPath, OF assms(3)])
qed

subsection \<open>The example decoder\<close>

lemma ex_decode:
  "p \<noteq> ''bad.3fr'' \<Longrightarrow> p \<noteq> ''cut.3fr'' \<Longrightarrow> decode example_libraw p =
      ([OpenFile p, Unpack example_data, SetGeometry (force_full_sensor (sizes example_data)),
        DcrawProcess example_session, MakeMemImage example_session],
       Some (example_image p example_session))"
  by (simp add: decode_def example_libraw_def LIBRAW_SUCCESS_def Let_def example_session_def)

lemma ex_gray:
  "example_image ''gray.3fr'' example_session =
     \<lparr>image_height = 1, image_width = 2, image_colors = 1, image_bits = 16,
      image_data = [5, 42, 79, 116]\<rparr>"
  unfolding example_image_def Let_def
  by (simp add: example_data_def force_full_sensor_def example_session_def upt_rec)

lemma ex_gray_pixels:
  "convert_pixels useSRGB exposure (example_image ''gray.3fr'' example_session) =
     Some [[\<lparr>px_r = channel useSRGB exposure (Fin (10757 / 65535)),
             px_g = channel useSRGB exposure (Fin (10757 / 65535)),
             px_b = channel useSRGB exposure (Fin (10757 / 65535)), px_a = Fin 1\<rparr>,
            \<lparr>px_r = channel useSRGB exposure (Fin (29775 / 65535)),
             px_g = channel useSRGB exposure (Fin (29775 / 65535)),
             px_b = channel useSRGB exposure (Fin (29775 / 65535)), px_a = Fin 1\<rparr>]]"
  unfolding ex_gray convert_pixels_def scan_def Let_def
  by (simp add: upt_rec pixel_index_def pixel_def read_u16_def Let_def)


lemma ex_gray_run:
  "outputPath \<noteq> ''full.exr'' \<Longrightarrow>
   convert3frToExr example_libraw example_exr ''gray.3fr'' outputPath useSRGB exposure files =
     Some \<lparr>returned = True,
           calls = [OpenFile ''gray.3fr'', Unpack example_data,
                    SetGeometry (force_full_sensor (sizes example_data)),
                    DcrawProcess example_session, MakeMemImage example_session,
                    ExrOpen outputPath 2 1, ExrWritePixels outputPath 1, ClearMem],
           disk = files(outputPath \<mapsto> Complete 2 1
             [[\<lparr>px_r = channel useSRGB exposure (Fin (10757 / 65535)),
             px_g = channel useSRGB exposure (Fin (10757 / 65535)),
             px_b = channel useSRGB exposure (Fin (10757 / 65535)), px_a = Fin 1\<rparr>,
            \<lparr>px_r = channel useSRGB exposure (Fin (29775 / 65535)),
             px_g = channel useSRGB exposure (Fin (29775 / 65535)),
             px_b = channel useSRGB exposure (Fin (29775 / 65535)), px_a = Fin 1\<rparr>]])\<rparr>"
  by (simp add: convert_after_decode [OF ex_decode] exr_stage_NoFault example_exr_def
      ex_gray_pixels) (simp add: ex_gray)

subsection \<open>Grayscale buffers\<close>

lemma gray_pixels_of_run:
  assumes "decode lr inputPath = (tr, Some img)"
    and "image_colors img < 3"
    and "convert3frToExr lr exr inputPath outputPath useSRGB exposure files = Some rn"
    and "returned rn"
  shows "\<exists>px. disk rn outputPath = Some (Complete (image_width img) (image_height img) px)
           \<and> length px = image_height img
           \<and> (\<forall>y<image_height img. length (px ! y) = image_width img
                 \<and> (\<forall>x<image_width img.
                       \<exists>s. sample img ((y * image_width img + x) * image_colors img) = Some s
                         \<and> px_r (px ! y ! x)
                             = channel useSRGB exposure (fdiv (Fin (real s)) (Fin (max_sample img)))
                         \<and> px_g (px ! y ! x) = px_r (px ! y ! x)
                         \<and> px_b (px ! y ! x) = px_r (px ! y ! x)
                         \<and> px_a (px ! y ! x) = Fin 1))"
proof -
  from convert_written [OF assms(1,3,4)] obtain px where
    c: "convert_pixels useSRGB exposure img = Some px" and
    d: "disk rn outputPath = Some (Complete (image_width img) (image_height img) px)"
    by blast
  have "\<exists>s. sample img ((y * image_width img + x) * image_colors img) = Some s
          \<and> px_r (px ! y ! x)
              = channel useSRGB exposure (fdiv (Fin (real s)) (Fin (max_sample img)))
          \<and> px_g (px ! y ! x) = px_r (px ! y ! x)
          \<and> px_b (px ! y ! x) = px_r (px ! y ! x)
          \<and> px_a (px ! y ! x) = Fin 1"
    if "y < image_height img" "x < image_width img" for y x
  proof -
    from convert_pixels_nth(3) [OF c that] have
      "pixel useSRGB exposure (sample img) (max_sample img) (image_colors img)
         ((y * image_width img + x) * image_colors img) = Some (px ! y ! x)"
      by simp
    from pixel_gray [OF this assms(2)] obtain s where
      s: "sample img ((y * image_width img + x) * image_colors img) = Some s" and
      p: "px ! y ! x
            = \<lparr>px_r = channel useSRGB exposure (fdiv (Fin (real s)) (Fin (max_sample img))),
               px_g = channel useSRGB exposure (fdiv (Fin (real s)) (Fin (max_sample img))),
               px_b = channel useSRGB exposure (fdiv (Fin (real s)) (Fin (max_sample img))),
               px_a = Fin 1\<rparr>"
      by blast
    show ?thesis
      by (rule exI [of _ s]) (simp only: s p rgba.simps simp_thms)
  qed
  then have "\<forall>y<image_height img. length (px ! y) = image_width img
                 \<and> (\<forall>x<image_width img.
                       \<exists>s. sample img ((y * image_width img + x) * image_colors img) = Some s
                         \<and> px_r (px ! y ! x)
                             = channel useSRGB exposure (fdiv (Fin (real s)) (Fin (max_sample img)))
                         \<and> px_g (px ! y ! x) = px_r (px ! y ! x)
                         \<and> px_b (px ! y ! x) = px_r (px ! y ! x)
                         \<and> px_a (px ! y ! x) = Fin 1)"
    using convert_pixels_nth(2) [OF c] by blast
  with d convert_pixels_nth(1) [OF c] show ?thesis
    by blast
qed

text \<open>
  C7. When the general converter has fetched a buffer with fewer than three channels, then
  on a well-formed buffer and with an encoder that does not throw it returns \<^verbatim>\<open>true\<close>; and
  whenever it returns \<^verbatim>\<open>true\<close>, the file it has written holds, for every pixel, R = G = B
  equal to the sample at the pixel's index, divided by 65535 or 255 and passed through the
  two transfer stages, and alpha = 1.
\<close>

theorem grayscale_is_replicated:
  assumes "decode lr inputPath = (tr, Some img)"
    and "image_colors img < 3"
  shows "(well_formed img \<and> exr outputPath = NoFault \<longrightarrow>
            (\<exists>rn. convert3frToExr lr exr inputPath outputPath useSRGB exposure files = Some rn
               \<and> returned rn))
         \<and> (\<forall>rn. convert3frToExr lr exr inputPath outputPath useSRGB exposure files = Some rn
                 \<and> returned rn \<longrightarrow>
              (\<exists>px. disk rn outputPath = Some (Complete (image_width img) (image_height img) px)
                 \<and> length px = image_height img
                 \<and> (\<forall>y<image_height img. length (px ! y) = image_width img
                       \<and> (\<forall>x<image_width img.
                             \<exists>s. sample img ((y * image_width img + x) * image_colors img) = Some s
                               \<and> px_r (px ! y ! x)
                                   = channel useSRGB exposure
                                       (fdiv (Fin (real s)) (Fin (max_sample img)))
                               \<and> px_g (px ! y ! x) = px_r (px ! y ! x)
                               \<and> px_b (px ! y ! x) = px_r (px ! y ! x)
                               \<and> px_a (px ! y ! x) = Fin 1))))"
proof (intro conjI impI allI)
  assume "well_formed img \<and> exr outputPath = NoFault"
  then have w: "well_formed img" and n: "exr outputPath = NoFault"
    by simp_all
  show "\<exists>rn. convert3frToExr lr exr inputPath outputPath useSRGB exposure files = Some rn
               \<and> returned rn"
    by (rule convert_total [where exr = exr and outputPath = outputPath, OF assms(1) w n])
next
  fix rn
  assume "convert3frToExr lr exr inputPath outputPath useSRGB exposure files = Some rn
                 \<and> returned rn"
  then have r: "convert3frToExr lr exr inputPath outputPath useSRGB exposure files = Some rn"
    and t: "returned rn"
    by simp_all
  show "\<exists>px. disk rn outputPath = Some (Complete (image_width img) (image_height img) px)
                 \<and> length px = image_height img
                 \<and> (\<forall>y<image_height img. length (px ! y) = image_width img
                       \<and> (\<forall>x<image_width img.
                             \<exists>s. sample img ((y * image_width img + x) * image_colors img) = Some s
                               \<and> px_r (px ! y ! x)
                                   = channel useSRGB exposure
                                       (fdiv (Fin (real s)) (Fin (max_sample img)))
                               \<and> px_g (px ! y ! x) = px_r (px ! y ! x)
                               \<and> px_b (px ! y ! x) = px_r (px ! y ! x)
                               \<and> px_a (px ! y ! x) = Fin 1))"
    by (rule gray_pixels_of_run [OF assms r t])
qed

text \<open>The one-channel example, at its second pixel.\<close>

theorem grayscale_is_replicated_witness:
  "well_formed (example_image ''gray.3fr'' example_session)
   \<and> example_exr ''gray.exr'' = NoFault
   \<and> image_colors (example_image ''gray.3fr'' example_session) < 3
   \<and> (\<exists>rn px. convert3frToExr example_libraw example_exr ''gray.3fr'' ''gray.exr'' True (Fin 2)
                  Map.empty = Some rn
         \<and> returned rn
         \<and> disk rn ''gray.exr'' = Some (Complete 2 1 px)
         \<and> px_r (px ! 0 ! 1) = channel True (Fin 2) (Fin (29775 / 65535))
         \<and> px_g (px ! 0 ! 1) = px_r (px ! 0 ! 1)
         \<and> px_b (px ! 0 ! 1) = px_r (px ! 0 ! 1)
         \<and> px_a (px ! 0 ! 1) = Fin 1)"
proof -
  let ?img = "example_image ''gray.3fr'' example_session"
  have d: "decode example_libraw ''gray.3fr''
      = ([OpenFile ''gray.3fr'', Unpack example_data,
          SetGeometry (force_full_sensor (sizes example_data)),
          DcrawProcess example_session, MakeMemImage example_session], Some ?img)"
    by (simp add: ex_decode)
  have c: "image_colors ?img < 3"
    by (simp add: ex_gray)
  have w: "well_formed ?img"
    by (simp add: ex_gray well_formed_def)
  have n: "example_exr ''gray.exr'' = NoFault"
    by (simp add: example_exr_def)
  note g = grayscale_is_replicated [OF d c, where exr = example_exr
      and outputPath = "''gray.exr''" and useSRGB = True and exposure = "Fin 2"
      and files = Map.empty]
  from g w n obtain rn where
    r: "convert3frToExr example_libraw example_exr ''gray.3fr'' ''gray.exr'' True (Fin 2)
          Map.empty = Some rn" and
    t: "returned rn"
    by blast
  from g r t obtain px where
    f: "disk rn ''gray.exr'' = Some (Complete (image_width ?img) (image_height ?img) px)" and
    a: "\<forall>y<image_height ?img. length (px ! y) = image_width ?img
           \<and> (\<forall>x<image_width ?img.
                 \<exists>s. sample ?img ((y * image_width ?img + x) * image_colors ?img) = Some s
                   \<and> px_r (px ! y ! x)
                       = channel True (Fin 2) (fdiv (Fin (real s)) (Fin (max_sample ?img)))
                   \<and> px_g (px ! y ! x) = px_r (px ! y ! x)
                   \<and> px_b (px ! y ! x) = px_r (px ! y ! x)
                   \<and> px_a (px ! y ! x) = Fin 1)"
    by blast
  have i: "image_height ?img = 1" "image_width ?img = 2" "image_colors ?img = 1"
    "max_sample ?img = 65535"
    by (simp_all add: ex_gray max_sample_def)
  have s: "sample ?img 1 = Some 29775"
    by (simp add: ex_gray sample_def read_u16_def)
  from a have "\<exists>s. sample ?img ((0 * image_width ?img + 1) * image_colors ?img) = Some s
                   \<and> px_r (px ! 0 ! 1)
                       = channel True (Fin 2) (fdiv (Fin (real s)) (Fin (max_sample ?img)))
                   \<and> px_g (px ! 0 ! 1) = px_r (px ! 0 ! 1)
                   \<and> px_b (px ! 0 ! 1) = px_r (px ! 0 ! 1)
                   \<and> px_a (px ! 0 ! 1) = Fin 1"
    unfolding i by simp
  then have p: "px_r (px ! 0 ! 1) = channel True (Fin 2) (Fin (29775 / 65535))
                   \<and> px_g (px ! 0 ! 1) = px_r (px ! 0 ! 1)
                   \<and> px_b (px ! 0 ! 1) = px_r (px ! 0 ! 1)
                   \<and> px_a (px ! 0 ! 1) = Fin 1"
    unfolding i using s by simp
  from f have f': "disk rn ''gray.exr'' = Some (Complete 2 1 px)"
    unfolding i .
  from w n c r t f' p show ?thesis
    by blast
qed

subsection \<open>The tone-mapping stage\<close>

text \<open>
  C6. In a file the general converter has written, every colour channel of every pixel holds
  the normalized (and, if requested, linearized) sample itself when the exposure is 1.0, and
  the tone-mapped value of it when the exposure is anything else: the tone mapping runs
  exactly when the exposure differs from 1.0.
\<close>

theorem compression_skipped_at_neutral_exposure:
  assumes "decode lr inputPath = (tr, Some img)"
    and "convert3frToExr lr exr inputPath outputPath useSRGB exposure files = Some rn"
    and "returned rn"
  shows "\<exists>px. disk rn outputPath = Some (Complete (image_width img) (image_height img) px)
           \<and> (\<forall>y<image_height img. \<forall>x<image_width img. \<forall>k<3.
                 \<exists>s. sample img (channel_index (image_colors img)
                          ((y * image_width img + x) * image_colors img) k) = Some s
                   \<and> rgb (px ! y ! x) ! k
                       = (if exposure = Fin 1 then before_compression useSRGB img s
                          else simpleToneMap (before_compression useSRGB img s) exposure))"
proof -
  from convert_written [OF assms] obtain px where
    c: "convert_pixels useSRGB exposure img = Some px" and
    d: "disk rn outputPath = Some (Complete (image_width img) (image_height img) px)"
    by blast
  have "\<exists>s. sample img (channel_index (image_colors img)
                          ((y * image_width img + x) * image_colors img) k) = Some s
                   \<and> rgb (px ! y ! x) ! k
                       = (if exposure = Fin 1 then before_compression useSRGB img s
                          else simpleToneMap (before_compression useSRGB img s) exposure)"
    if "y < image_height img" "x < image_width img" "k < 3" for y x k
  proof -
    from convert_pixels_nth(3) [OF c that(1,2)] have
      "pixel useSRGB exposure (sample img) (max_sample img) (image_colors img)
         ((y * image_width img + x) * image_colors img) = Some (px ! y ! x)"
      by simp
    from pixel_channels [OF this that(3)] obtain s where
      s: "sample img (channel_index (image_colors img)
            ((y * image_width img + x) * image_colors img) k) = Some s" and
      v: "rgb (px ! y ! x) ! k
            = channel useSRGB exposure (fdiv (Fin (real s)) (Fin (max_sample img)))"
      by blast
    have "channel useSRGB exposure (fdiv (Fin (real s)) (Fin (max_sample img)))
            = (if exposure = Fin 1 then before_compression useSRGB img s
               else simpleToneMap (before_compression useSRGB img s) exposure)"
      by (simp add: channel_stage before_compression_def Let_def)
    with s v show ?thesis by simp
  qed
  with d show ?thesis by blast
qed


lemma ex_gray_sample: "sample (example_image ''gray.3fr'' example_session) 1 = Some 29775"
  by (simp add: ex_gray sample_def read_u16_def)

lemma ex_gray_fields:
  "image_height (example_image ''gray.3fr'' example_session) = 1"
  "image_width (example_image ''gray.3fr'' example_session) = 2"
  "image_colors (example_image ''gray.3fr'' example_session) = 1"
  "max_sample (example_image ''gray.3fr'' example_session) = 65535"
  by (simp_all add: ex_gray max_sample_def)

text \<open>The one-channel example at exposure 1 and at exposure 2. Skipping is not the same as
  tone mapping at exposure 1, which would change the value.\<close>

theorem compression_skipped_at_neutral_exposure_witness:
  "(\<exists>px. disk (the (convert3frToExr example_libraw example_exr ''gray.3fr'' ''gray.exr'' False
               (Fin 1) Map.empty)) ''gray.exr'' = Some (Complete 2 1 px)
         \<and> rgb (px ! 0 ! 1) ! 0 = Fin (29775 / 65535))
   \<and> (\<exists>px. disk (the (convert3frToExr example_libraw example_exr ''gray.3fr'' ''gray.exr'' False
               (Fin 2) Map.empty)) ''gray.exr'' = Some (Complete 2 1 px)
         \<and> rgb (px ! 0 ! 1) ! 0 = simpleToneMap (Fin (29775 / 65535)) (Fin 2))
   \<and> simpleToneMap (Fin (29775 / 65535)) (Fin 1) \<noteq> Fin (29775 / 65535)"
proof -
  let ?img = "example_image ''gray.3fr'' example_session"
  have d: "decode example_libraw ''gray.3fr''
      = ([OpenFile ''gray.3fr'', Unpack example_data,
          SetGeometry (force_full_sensor (sizes example_data)),
          DcrawProcess example_session, MakeMemImage example_session], Some ?img)"
    by (simp add: ex_decode)
  have b: "before_compression False ?img 29775 = Fin (29775 / 65535)"
    by (simp add: before_compression_def ex_gray_fields)
  have "\<exists>px. disk (the (convert3frToExr example_libraw example_exr ''gray.3fr'' ''gray.exr'' False
               e Map.empty)) ''gray.exr'' = Some (Complete 2 1 px)
         \<and> rgb (px ! 0 ! 1) ! 0
             = (if e = Fin 1 then Fin (29775 / 65535)
                else simpleToneMap (Fin (29775 / 65535)) e)" for e
  proof -
    let ?rn = "the (convert3frToExr example_libraw example_exr ''gray.3fr'' ''gray.exr'' False e
      Map.empty)"
    have r: "convert3frToExr example_libraw example_exr ''gray.3fr'' ''gray.exr'' False e
        Map.empty = Some ?rn"
      by (simp add: ex_gray_run)
    have t: "returned ?rn"
      by (simp add: ex_gray_run)
    from compression_skipped_at_neutral_exposure [OF d r t] obtain px where
      f: "disk ?rn ''gray.exr'' = Some (Complete (image_width ?img) (image_height ?img) px)" and
      a: "\<forall>y<image_height ?img. \<forall>x<image_width ?img. \<forall>k<3.
           \<exists>s. sample ?img (channel_index (image_colors ?img)
                    ((y * image_width ?img + x) * image_colors ?img) k) = Some s
             \<and> rgb (px ! y ! x) ! k
                 = (if e = Fin 1 then before_compression False ?img s
                    else simpleToneMap (before_compression False ?img s) e)"
      by blast
    from a have "\<exists>s. sample ?img (channel_index (image_colors ?img)
                    ((0 * image_width ?img + 1) * image_colors ?img) 0) = Some s
             \<and> rgb (px ! 0 ! 1) ! 0
                 = (if e = Fin 1 then before_compression False ?img s
                    else simpleToneMap (before_compression False ?img s) e)"
      unfolding ex_gray_fields by simp
    then have "rgb (px ! 0 ! 1) ! 0
                 = (if e = Fin 1 then before_compression False ?img 29775
                    else simpleToneMap (before_compression False ?img 29775) e)"
      unfolding ex_gray_fields channel_index_def using ex_gray_sample by simp
    with f show ?thesis
      unfolding ex_gray_fields b by blast
  qed
  from this [of "Fin 1"] this [of "Fin 2"]
  have "(\<exists>px. disk (the (convert3frToExr example_libraw example_exr ''gray.3fr'' ''gray.exr'' False
               (Fin 1) Map.empty)) ''gray.exr'' = Some (Complete 2 1 px)
         \<and> rgb (px ! 0 ! 1) ! 0 = Fin (29775 / 65535))
   \<and> (\<exists>px. disk (the (convert3frToExr example_libraw example_exr ''gray.3fr'' ''gray.exr'' False
               (Fin 2) Map.empty)) ''gray.exr'' = Some (Complete 2 1 px)
         \<and> rgb (px ! 0 ! 1) ! 0 = simpleToneMap (Fin (29775 / 65535)) (Fin 2))"
    by simp
  moreover have "simpleToneMap (Fin (29775 / 65535)) (Fin 1) \<noteq> Fin (29775 / 65535)"
    by (simp add: simpleToneMap_def)
  ultimately show ?thesis by blast
qed

subsection \<open>Formats\<close>

lemma convert_fs_after_decode:
  "decode_fs lr inputPath = (tr, Some img) \<Longrightarrow>
     convert3frToExr_fs lr exr inputPath outputPath files
       = exr_stage_fs exr outputPath img tr files"
  by (simp add: convert3frToExr_fs_def)

lemma convert_fs_decode_failed:
  "decode_fs lr inputPath = (tr, None) \<Longrightarrow>
     convert3frToExr_fs lr exr inputPath outputPath files
       = Some \<lparr>returned = False, calls = tr, disk = files\<rparr>"
  by (simp add: convert3frToExr_fs_def)

lemma convert_pixels_fs_unsupported:
  "\<not> (image_colors img = 3 \<and> image_bits img = 16) \<Longrightarrow>
   \<not> (image_colors img = 3 \<and> image_bits img = 8) \<Longrightarrow> convert_pixels_fs img = Unsupported"
  by (auto simp: convert_pixels_fs_def Let_def)

lemma exr_stage_fs_unsupported:
  assumes "convert_pixels_fs img = Unsupported"
  shows "exr_stage_fs exr outputPath img tr files =
     Some \<lparr>returned = False,
           calls = tr @ [ExrOpen outputPath (image_width img) (image_height img), ClearMem],
           disk = (if exr outputPath = OpenThrows then files
                   else files(outputPath \<mapsto> Incomplete))\<rparr>"
  using assms by (cases "exr outputPath") (simp_all add: exr_stage_fs_def Let_def)

lemma formats_of_run:
  "(decode lr inputPath = (tr, Some img) \<and> exr outputPath = NoFault
      \<and> convert3frToExr lr exr inputPath outputPath useSRGB exposure files = Some rn
     \<longrightarrow> returned rn)
   \<and> (decode lr inputPath = (tr, Some img) \<and> exr outputPath = NoFault
      \<and> convert3frToExr lr exr inputPath outputPath useSRGB exposure files = Some rn
      \<and> image_bits img \<noteq> 16
     \<longrightarrow> (\<exists>px. disk rn outputPath = Some (Complete (image_width img) (image_height img) px)
           \<and> (\<forall>y<image_height img. \<forall>x<image_width img. \<forall>k<3.
                 \<exists>s. read_u8 (image_data img) (channel_index (image_colors img)
                          ((y * image_width img + x) * image_colors img) k) = Some s
                   \<and> rgb (px ! y ! x) ! k
                       = channel useSRGB exposure (fdiv (Fin (real s)) (Fin 255)))))
   \<and> (decode_fs lr inputPath = (tr', Some img')
      \<and> \<not> (image_colors img' = 3 \<and> image_bits img' = 16)
      \<and> \<not> (image_colors img' = 3 \<and> image_bits img' = 8)
     \<longrightarrow> (\<exists>rn'. convert3frToExr_fs lr exr inputPath outputPath files = Some rn'
           \<and> \<not> returned rn'))"
proof (intro conjI impI)
  assume a: "decode lr inputPath = (tr, Some img) \<and> exr outputPath = NoFault
      \<and> convert3frToExr lr exr inputPath outputPath useSRGB exposure files = Some rn"
  then have d: "decode lr inputPath = (tr, Some img)"
    by simp
  from a have "exr_stage exr outputPath useSRGB exposure img tr files = Some rn"
    unfolding convert_after_decode [OF d] by simp
  with a show "returned rn"
    by (cases "convert_pixels useSRGB exposure img") (auto simp: exr_stage_NoFault)
next
  assume a: "decode lr inputPath = (tr, Some img) \<and> exr outputPath = NoFault
      \<and> convert3frToExr lr exr inputPath outputPath useSRGB exposure files = Some rn
      \<and> image_bits img \<noteq> 16"
  then have d0: "decode lr inputPath = (tr, Some img)"
    by simp
  from a have e: "exr_stage exr outputPath useSRGB exposure img tr files = Some rn"
    unfolding convert_after_decode [OF d0] by simp
  with a have r: "returned rn"
    by (cases "convert_pixels useSRGB exposure img") (auto simp: exr_stage_NoFault)
  from exr_stage_returned [OF e r] obtain px where
    c: "convert_pixels useSRGB exposure img = Some px" and
    d: "disk rn = files(outputPath \<mapsto> Complete (image_width img) (image_height img) px)"
    by blast
  from a have s8: "sample img = read_u8 (image_data img)"
    by (intro ext) (simp add: sample_def)
  from a have m8: "max_sample img = 255"
    by (simp add: max_sample_def)
  have "\<exists>s. read_u8 (image_data img) (channel_index (image_colors img)
                          ((y * image_width img + x) * image_colors img) k) = Some s
                   \<and> rgb (px ! y ! x) ! k
                       = channel useSRGB exposure (fdiv (Fin (real s)) (Fin 255))"
    if "y < image_height img" "x < image_width img" "k < 3" for y x k
  proof -
    from convert_pixels_nth(3) [OF c that(1,2)] have
      "pixel useSRGB exposure (read_u8 (image_data img)) 255 (image_colors img)
         ((y * image_width img + x) * image_colors img) = Some (px ! y ! x)"
      unfolding s8 m8 by simp
    from pixel_channels [OF this that(3)] show ?thesis .
  qed
  moreover from d have "disk rn outputPath
      = Some (Complete (image_width img) (image_height img) px)"
    by simp
  ultimately show "\<exists>px. disk rn outputPath
          = Some (Complete (image_width img) (image_height img) px)
           \<and> (\<forall>y<image_height img. \<forall>x<image_width img. \<forall>k<3.
                 \<exists>s. read_u8 (image_data img) (channel_index (image_colors img)
                          ((y * image_width img + x) * image_colors img) k) = Some s
                   \<and> rgb (px ! y ! x) ! k
                       = channel useSRGB exposure (fdiv (Fin (real s)) (Fin 255)))"
    by blast
next
  assume a: "decode_fs lr inputPath = (tr', Some img')
      \<and> \<not> (image_colors img' = 3 \<and> image_bits img' = 16)
      \<and> \<not> (image_colors img' = 3 \<and> image_bits img' = 8)"
  then have u: "convert_pixels_fs img' = Unsupported"
    by (simp add: convert_pixels_fs_unsupported)
  from a have "decode_fs lr inputPath = (tr', Some img')"
    by simp
  then have "convert3frToExr_fs lr exr inputPath outputPath files
      = exr_stage_fs exr outputPath img' tr' files"
    by (rule convert_fs_after_decode)
  then show "\<exists>rn'. convert3frToExr_fs lr exr inputPath outputPath files = Some rn'
           \<and> \<not> returned rn'"
    by (simp add: exr_stage_fs_unsupported [OF u])
qed

text \<open>
  C10. The general converter has no failure for a format: once a well-formed buffer is
  fetched and the encoder does not throw, it returns \<^verbatim>\<open>true\<close>, whatever the bit depth and
  the number of channels are, and no run in which the encoder does not throw returns
  \<^verbatim>\<open>false\<close> after a buffer is fetched. A buffer whose bit depth is not 16 goes through the
  8-bit branch: every channel of every pixel is a byte of the buffer divided by 255 (and
  transformed). The full-sensor converter returns \<^verbatim>\<open>false\<close> for every fetched buffer that is
  neither 3 channels of 16 bits nor 3 channels of 8 bits.
\<close>

theorem general_accepts_every_format:
  "(decode lr inputPath = (tr, Some img) \<and> well_formed img \<and> exr outputPath = NoFault
     \<longrightarrow> (\<exists>r. convert3frToExr lr exr inputPath outputPath useSRGB exposure files = Some r
           \<and> returned r))
   \<and> (decode lr inputPath = (tr, Some img) \<and> exr outputPath = NoFault
      \<and> convert3frToExr lr exr inputPath outputPath useSRGB exposure files = Some rn
     \<longrightarrow> returned rn)
   \<and> (decode lr inputPath = (tr, Some img) \<and> exr outputPath = NoFault
      \<and> convert3frToExr lr exr inputPath outputPath useSRGB exposure files = Some rn
      \<and> image_bits img \<noteq> 16
     \<longrightarrow> (\<exists>px. disk rn outputPath = Some (Complete (image_width img) (image_height img) px)
           \<and> (\<forall>y<image_height img. \<forall>x<image_width img. \<forall>k<3.
                 \<exists>s. read_u8 (image_data img) (channel_index (image_colors img)
                          ((y * image_width img + x) * image_colors img) k) = Some s
                   \<and> rgb (px ! y ! x) ! k
                       = channel useSRGB exposure (fdiv (Fin (real s)) (Fin 255)))))
   \<and> (decode_fs lr inputPath = (tr', Some img')
      \<and> \<not> (image_colors img' = 3 \<and> image_bits img' = 16)
      \<and> \<not> (image_colors img' = 3 \<and> image_bits img' = 8)
     \<longrightarrow> (\<exists>rn'. convert3frToExr_fs lr exr inputPath outputPath files = Some rn'
           \<and> \<not> returned rn'))"
proof (rule conjI)
  show "decode lr inputPath = (tr, Some img) \<and> well_formed img \<and> exr outputPath = NoFault
     \<longrightarrow> (\<exists>r. convert3frToExr lr exr inputPath outputPath useSRGB exposure files = Some r
           \<and> returned r)"
  proof
    assume "decode lr inputPath = (tr, Some img) \<and> well_formed img \<and> exr outputPath = NoFault"
    then have d: "decode lr inputPath = (tr, Some img)" and w: "well_formed img"
      and n: "exr outputPath = NoFault"
      by simp_all
    show "\<exists>r. convert3frToExr lr exr inputPath outputPath useSRGB exposure files = Some r
           \<and> returned r"
      by (rule convert_total [where exr = exr and outputPath = outputPath, OF d w n])
  qed
qed (rule formats_of_run)

lemma ex_gray8:
  "example_image ''gray8.3fr'' example_session =
     \<lparr>image_height = 1, image_width = 2, image_colors = 1, image_bits = 8,
      image_data = [5, 42]\<rparr>"
  unfolding example_image_def Let_def
  by (simp add: example_data_def force_full_sensor_def example_session_def upt_rec)

lemma ex_gray8_pixels:
  "convert_pixels useSRGB exposure (example_image ''gray8.3fr'' example_session) =
     Some [[\<lparr>px_r = channel useSRGB exposure (Fin (5 / 255)),
             px_g = channel useSRGB exposure (Fin (5 / 255)),
             px_b = channel useSRGB exposure (Fin (5 / 255)), px_a = Fin 1\<rparr>,
            \<lparr>px_r = channel useSRGB exposure (Fin (42 / 255)),
             px_g = channel useSRGB exposure (Fin (42 / 255)),
             px_b = channel useSRGB exposure (Fin (42 / 255)), px_a = Fin 1\<rparr>]]"
  unfolding ex_gray8 convert_pixels_def scan_def Let_def
  by (simp add: upt_rec pixel_index_def pixel_def read_u8_def Let_def)

lemma ex_gray8_run:
  "outputPath \<noteq> ''full.exr'' \<Longrightarrow>
   convert3frToExr example_libraw example_exr ''gray8.3fr'' outputPath useSRGB exposure files =
     Some \<lparr>returned = True,
           calls = [OpenFile ''gray8.3fr'', Unpack example_data,
                    SetGeometry (force_full_sensor (sizes example_data)),
                    DcrawProcess example_session, MakeMemImage example_session,
                    ExrOpen outputPath 2 1, ExrWritePixels outputPath 1, ClearMem],
           disk = files(outputPath \<mapsto> Complete 2 1
             [[\<lparr>px_r = channel useSRGB exposure (Fin (5 / 255)),
             px_g = channel useSRGB exposure (Fin (5 / 255)),
             px_b = channel useSRGB exposure (Fin (5 / 255)), px_a = Fin 1\<rparr>,
            \<lparr>px_r = channel useSRGB exposure (Fin (42 / 255)),
             px_g = channel useSRGB exposure (Fin (42 / 255)),
             px_b = channel useSRGB exposure (Fin (42 / 255)), px_a = Fin 1\<rparr>]])\<rparr>"
  by (simp add: convert_after_decode [OF ex_decode] exr_stage_NoFault example_exr_def
      ex_gray8_pixels) (simp add: ex_gray8)

lemma ex_decode_fs:
  "p \<noteq> ''bad.3fr'' \<Longrightarrow> p \<noteq> ''cut.3fr'' \<Longrightarrow> decode_fs example_libraw p =
      ([OpenFile p, SetGeometry (use_full_sensor (sizes example_data)), Unpack example_session_fs,
        DcrawProcess example_session_fs, MakeMemImage example_session_fs],
       Some (example_image p example_session_fs))"
  by (simp add: decode_fs_def example_libraw_def LIBRAW_SUCCESS_def Let_def
      example_session_fs_def)

lemma ex_gray8_fs:
  "example_image ''gray8.3fr'' example_session_fs =
     \<lparr>image_height = 1, image_width = 2, image_colors = 1, image_bits = 8,
      image_data = [5, 42]\<rparr>"
  unfolding example_image_def Let_def
  by (simp add: example_data_def use_full_sensor_def example_session_fs_def upt_rec)

lemma ex_rgb8:
  "example_image ''rgb8.3fr'' example_session =
     \<lparr>image_height = 1, image_width = 2, image_colors = 3, image_bits = 8,
      image_data = [5, 42, 79, 116, 153, 190]\<rparr>"
  unfolding example_image_def Let_def
  by (simp add: example_data_def force_full_sensor_def example_session_def upt_rec)

text \<open>The examples with three 8-bit channels and with one: both converted by the general
  variant, at the second pixel from the bytes 190 (its blue) and 42; the second rejected by
  the full-sensor variant.\<close>

theorem general_accepts_every_format_witness:
  "well_formed (example_image ''rgb8.3fr'' example_session)
   \<and> image_colors (example_image ''rgb8.3fr'' example_session) = 3
   \<and> image_bits (example_image ''rgb8.3fr'' example_session) = 8
   \<and> (\<exists>rn px. convert3frToExr example_libraw example_exr ''rgb8.3fr'' ''rgb8.exr'' True (Fin 1)
                  Map.empty = Some rn
         \<and> returned rn
         \<and> disk rn ''rgb8.exr'' = Some (Complete 2 1 px)
         \<and> rgb (px ! 0 ! 1) ! 2 = channel True (Fin 1) (Fin (190 / 255)))
   \<and> well_formed (example_image ''gray8.3fr'' example_session)
   \<and> image_colors (example_image ''gray8.3fr'' example_session) = 1
   \<and> image_bits (example_image ''gray8.3fr'' example_session) = 8
   \<and> (\<exists>rn px. convert3frToExr example_libraw example_exr ''gray8.3fr'' ''gray8.exr'' True (Fin 1)
                  Map.empty = Some rn
         \<and> returned rn
         \<and> disk rn ''gray8.exr'' = Some (Complete 2 1 px)
         \<and> rgb (px ! 0 ! 1) ! 0 = channel True (Fin 1) (Fin (42 / 255)))
   \<and> (\<exists>rn'. convert3frToExr_fs example_libraw example_exr ''gray8.3fr'' ''gray8.exr'' Map.empty
          = Some rn' \<and> \<not> returned rn')"
proof -
  let ?c = "example_image ''rgb8.3fr'' example_session"
  let ?g = "example_image ''gray8.3fr'' example_session"
  let ?g' = "example_image ''gray8.3fr'' example_session_fs"
  let ?trc = "[OpenFile ''rgb8.3fr'', Unpack example_data,
          SetGeometry (force_full_sensor (sizes example_data)),
          DcrawProcess example_session, MakeMemImage example_session]"
  let ?trg = "[OpenFile ''gray8.3fr'', Unpack example_data,
          SetGeometry (force_full_sensor (sizes example_data)),
          DcrawProcess example_session, MakeMemImage example_session]"
  let ?trg' = "[OpenFile ''gray8.3fr'', SetGeometry (use_full_sensor (sizes example_data)),
        Unpack example_session_fs, DcrawProcess example_session_fs,
        MakeMemImage example_session_fs]"
  have ic: "image_height ?c = 1" "image_width ?c = 2" "image_colors ?c = 3"
    "image_bits ?c = 8" "image_data ?c = [5, 42, 79, 116, 153, 190]"
    by (simp_all add: ex_rgb8)
  have ig: "image_height ?g = 1" "image_width ?g = 2" "image_colors ?g = 1"
    "image_bits ?g = 8" "image_data ?g = [5, 42]"
    by (simp_all add: ex_gray8)
  have wc: "well_formed ?c"
    by (simp add: ex_rgb8 well_formed_def)
  have wg: "well_formed ?g"
    by (simp add: ex_gray8 well_formed_def)
  have bc: "image_bits ?c \<noteq> 16"
    by (simp add: ex_rgb8)
  have bg: "image_bits ?g \<noteq> 16"
    by (simp add: ex_gray8)
  have dc: "decode example_libraw ''rgb8.3fr'' = (?trc, Some ?c)"
    by (simp add: ex_decode)
  have dg: "decode example_libraw ''gray8.3fr'' = (?trg, Some ?g)"
    by (simp add: ex_decode)
  have dg': "decode_fs example_libraw ''gray8.3fr'' = (?trg', Some ?g')"
    by (simp add: ex_decode_fs)
  have nc: "example_exr ''rgb8.exr'' = NoFault"
    by (simp add: example_exr_def)
  have ng: "example_exr ''gray8.exr'' = NoFault"
    by (simp add: example_exr_def)
  have u: "\<not> (image_colors ?g' = 3 \<and> image_bits ?g' = 16)"
    "\<not> (image_colors ?g' = 3 \<and> image_bits ?g' = 8)"
    by (simp_all add: ex_gray8_fs)
  have c1: "\<exists>rn px. convert3frToExr example_libraw example_exr ''rgb8.3fr'' ''rgb8.exr'' True
                  (Fin 1) Map.empty = Some rn
         \<and> returned rn
         \<and> disk rn ''rgb8.exr'' = Some (Complete 2 1 px)
         \<and> rgb (px ! 0 ! 1) ! 2 = channel True (Fin 1) (Fin (190 / 255))"
  proof -
    note t = general_accepts_every_format [where lr = example_libraw and exr = example_exr
        and inputPath = "''rgb8.3fr''" and outputPath = "''rgb8.exr''" and useSRGB = True
        and exposure = "Fin 1" and files = Map.empty and tr = ?trc and img = ?c]
    from t dc wc nc obtain rn where
      r: "convert3frToExr example_libraw example_exr ''rgb8.3fr'' ''rgb8.exr'' True (Fin 1)
            Map.empty = Some rn" and
      v: "returned rn"
      by blast
    from t [where rn = rn] dc nc r bc obtain px where
      f: "disk rn ''rgb8.exr'' = Some (Complete (image_width ?c) (image_height ?c) px)" and
      a: "\<forall>y<image_height ?c. \<forall>x<image_width ?c. \<forall>k<3.
             \<exists>s. read_u8 (image_data ?c) (channel_index (image_colors ?c)
                      ((y * image_width ?c + x) * image_colors ?c) k) = Some s
               \<and> rgb (px ! y ! x) ! k = channel True (Fin 1) (fdiv (Fin (real s)) (Fin 255))"
      by blast
    have "\<exists>s. read_u8 (image_data ?c) (channel_index (image_colors ?c)
                      ((0 * image_width ?c + 1) * image_colors ?c) 2) = Some s
               \<and> rgb (px ! 0 ! 1) ! 2 = channel True (Fin 1) (fdiv (Fin (real s)) (Fin 255))"
      using a [rule_format, of 0 1 2] unfolding ic by simp
    then have "rgb (px ! 0 ! 1) ! 2 = channel True (Fin 1) (Fin (190 / 255))"
      unfolding ic channel_index_def by (simp add: read_u8_def)
    with r v f show ?thesis
      unfolding ic by blast
  qed
  note t = general_accepts_every_format [where lr = example_libraw and exr = example_exr
      and inputPath = "''gray8.3fr''" and outputPath = "''gray8.exr''" and useSRGB = True
      and exposure = "Fin 1" and files = Map.empty and tr = ?trg and img = ?g
      and tr' = ?trg' and img' = ?g']
  have c2: "\<exists>rn px. convert3frToExr example_libraw example_exr ''gray8.3fr'' ''gray8.exr'' True
                  (Fin 1) Map.empty = Some rn
         \<and> returned rn
         \<and> disk rn ''gray8.exr'' = Some (Complete 2 1 px)
         \<and> rgb (px ! 0 ! 1) ! 0 = channel True (Fin 1) (Fin (42 / 255))"
  proof -
    from t dg wg ng obtain rn where
      r: "convert3frToExr example_libraw example_exr ''gray8.3fr'' ''gray8.exr'' True (Fin 1)
            Map.empty = Some rn" and
      v: "returned rn"
      by blast
    from t [where rn = rn] dg ng r bg obtain px where
      f: "disk rn ''gray8.exr'' = Some (Complete (image_width ?g) (image_height ?g) px)" and
      a: "\<forall>y<image_height ?g. \<forall>x<image_width ?g. \<forall>k<3.
             \<exists>s. read_u8 (image_data ?g) (channel_index (image_colors ?g)
                      ((y * image_width ?g + x) * image_colors ?g) k) = Some s
               \<and> rgb (px ! y ! x) ! k = channel True (Fin 1) (fdiv (Fin (real s)) (Fin 255))"
      by blast
    from a have "\<exists>s. read_u8 (image_data ?g) (channel_index (image_colors ?g)
                      ((0 * image_width ?g + 1) * image_colors ?g) 0) = Some s
               \<and> rgb (px ! 0 ! 1) ! 0 = channel True (Fin 1) (fdiv (Fin (real s)) (Fin 255))"
      unfolding ig by simp
    then have "rgb (px ! 0 ! 1) ! 0 = channel True (Fin 1) (Fin (42 / 255))"
      unfolding ig channel_index_def by (simp add: read_u8_def)
    with r v f show ?thesis
      unfolding ig by blast
  qed
  from t dg' u have c3: "\<exists>rn'. convert3frToExr_fs example_libraw example_exr ''gray8.3fr''
      ''gray8.exr'' Map.empty = Some rn' \<and> \<not> returned rn'"
    by blast
  from wc ic(3,4) c1 wg ig(3,4) c2 c3 show ?thesis
    by blast
qed

subsection \<open>Failures and the output file\<close>

lemma decode_no_encoder_call:
  "filter encoder_call (fst (decode lr inputPath)) = [] \<and> ClearMem \<notin> set (fst (decode lr inputPath))"
  by (simp add: decode_def Let_def split: prod.splits)

lemma decode_fs_no_encoder_call:
  "filter encoder_call (fst (decode_fs lr inputPath)) = []
   \<and> ClearMem \<notin> set (fst (decode_fs lr inputPath))"
  by (simp add: decode_fs_def Let_def split: prod.splits)

lemma exr_stage_fs_WriteThrows:
  assumes "exr outputPath = WriteThrows" and "convert_pixels_fs img \<noteq> Unsupported"
    and "exr_stage_fs exr outputPath img tr files = Some rn"
  shows "rn = \<lparr>returned = False,
           calls = tr @ [ExrOpen outputPath (image_width img) (image_height img),
                         ExrWritePixels outputPath (image_height img), ClearMem],
           disk = files(outputPath \<mapsto> Incomplete)\<rparr>"
  using assms
  by (cases "convert_pixels_fs img") (simp_all add: exr_stage_fs_def Let_def)

lemma exr_stage_WriteThrows_run:
  assumes "exr outputPath = WriteThrows"
    and "exr_stage exr outputPath useSRGB exposure img tr files = Some rn"
  shows "rn = \<lparr>returned = False,
           calls = tr @ [ExrOpen outputPath (image_width img) (image_height img),
                         ExrWritePixels outputPath (image_height img), ClearMem],
           disk = files(outputPath \<mapsto> Incomplete)\<rparr>"
  using assms
  by (cases "convert_pixels useSRGB exposure img") (simp_all add: exr_stage_WriteThrows)

text \<open>
  C2 (amended). When the encoder throws in \<^verbatim>\<open>writePixels\<close>, both converters catch the
  exception, return \<^verbatim>\<open>false\<close> and release the decoded buffer as their last call, once; the
  file that the encoder opened at the output path when it was constructed stays there,
  incomplete, since nothing removes it. When the conversion fails before the encoder is
  constructed (open, unpack, process or fetch), the converter returns \<^verbatim>\<open>false\<close>, no call
  to the encoder is made and the file system is as it was.
\<close>

theorem write_failure_leaves_incomplete_file:
  "(decode lr inputPath = (tr, Some img) \<and> exr outputPath = WriteThrows
      \<and> convert3frToExr lr exr inputPath outputPath useSRGB exposure files = Some rn
     \<longrightarrow> \<not> returned rn
         \<and> calls rn = tr @ [ExrOpen outputPath (image_width img) (image_height img),
                            ExrWritePixels outputPath (image_height img), ClearMem]
         \<and> ClearMem \<notin> set tr
         \<and> disk rn = files(outputPath \<mapsto> Incomplete))
   \<and> (decode lr inputPath = (tr, None)
     \<longrightarrow> convert3frToExr lr exr inputPath outputPath useSRGB exposure files
           = Some \<lparr>returned = False, calls = tr, disk = files\<rparr>
         \<and> filter encoder_call tr = [])
   \<and> (decode_fs lr inputPath = (tr', Some img') \<and> exr outputPath = WriteThrows
      \<and> convert_pixels_fs img' \<noteq> Unsupported
      \<and> convert3frToExr_fs lr exr inputPath outputPath files = Some rn'
     \<longrightarrow> \<not> returned rn'
         \<and> calls rn' = tr' @ [ExrOpen outputPath (image_width img') (image_height img'),
                              ExrWritePixels outputPath (image_height img'), ClearMem]
         \<and> ClearMem \<notin> set tr'
         \<and> disk rn' = files(outputPath \<mapsto> Incomplete))
   \<and> (decode_fs lr inputPath = (tr', None)
     \<longrightarrow> convert3frToExr_fs lr exr inputPath outputPath files
           = Some \<lparr>returned = False, calls = tr', disk = files\<rparr>
         \<and> filter encoder_call tr' = [])"
proof (intro conjI impI)
  assume a: "decode lr inputPath = (tr, Some img) \<and> exr outputPath = WriteThrows
      \<and> convert3frToExr lr exr inputPath outputPath useSRGB exposure files = Some rn"
  then have d: "decode lr inputPath = (tr, Some img)" by simp
  from a have w: "exr outputPath = WriteThrows" by simp
  from a have "exr_stage exr outputPath useSRGB exposure img tr files = Some rn"
    unfolding convert_after_decode [OF d] by simp
  then have rn: "rn = \<lparr>returned = False,
           calls = tr @ [ExrOpen outputPath (image_width img) (image_height img),
                         ExrWritePixels outputPath (image_height img), ClearMem],
           disk = files(outputPath \<mapsto> Incomplete)\<rparr>"
    by (rule exr_stage_WriteThrows_run [where exr = exr and outputPath = outputPath, OF w])
  show "\<not> returned rn" by (simp add: rn)
  show "calls rn = tr @ [ExrOpen outputPath (image_width img) (image_height img),
                            ExrWritePixels outputPath (image_height img), ClearMem]"
    by (simp add: rn)
  show "disk rn = files(outputPath \<mapsto> Incomplete)" by (simp add: rn)
  from decode_no_encoder_call [of lr inputPath] d show "ClearMem \<notin> set tr" by simp
next
  assume d: "decode lr inputPath = (tr, None)"
  then show "convert3frToExr lr exr inputPath outputPath useSRGB exposure files
           = Some \<lparr>returned = False, calls = tr, disk = files\<rparr>"
    by (rule convert_decode_failed)
  from decode_no_encoder_call [of lr inputPath] d show "filter encoder_call tr = []" by simp
next
  assume a: "decode_fs lr inputPath = (tr', Some img') \<and> exr outputPath = WriteThrows
      \<and> convert_pixels_fs img' \<noteq> Unsupported
      \<and> convert3frToExr_fs lr exr inputPath outputPath files = Some rn'"
  then have d: "decode_fs lr inputPath = (tr', Some img')" by simp
  from a have w: "exr outputPath = WriteThrows" and u: "convert_pixels_fs img' \<noteq> Unsupported"
    by simp_all
  from a have "exr_stage_fs exr outputPath img' tr' files = Some rn'"
    unfolding convert_fs_after_decode [OF d] by simp
  then have rn: "rn' = \<lparr>returned = False,
           calls = tr' @ [ExrOpen outputPath (image_width img') (image_height img'),
                         ExrWritePixels outputPath (image_height img'), ClearMem],
           disk = files(outputPath \<mapsto> Incomplete)\<rparr>"
    by (rule exr_stage_fs_WriteThrows [where exr = exr and outputPath = outputPath, OF w u])
  show "\<not> returned rn'" by (simp add: rn)
  show "calls rn' = tr' @ [ExrOpen outputPath (image_width img') (image_height img'),
                            ExrWritePixels outputPath (image_height img'), ClearMem]"
    by (simp add: rn)
  show "disk rn' = files(outputPath \<mapsto> Incomplete)" by (simp add: rn)
  from decode_fs_no_encoder_call [of lr inputPath] d show "ClearMem \<notin> set tr'" by simp
next
  assume d: "decode_fs lr inputPath = (tr', None)"
  then show "convert3frToExr_fs lr exr inputPath outputPath files
           = Some \<lparr>returned = False, calls = tr', disk = files\<rparr>"
    by (rule convert_fs_decode_failed)
  from decode_fs_no_encoder_call [of lr inputPath] d show "filter encoder_call tr' = []" by simp
qed


lemma ex_decode_bad: "decode example_libraw ''bad.3fr'' = ([OpenFile ''bad.3fr''], None)"
  by (simp add: decode_def example_libraw_def LIBRAW_SUCCESS_def)

lemma ex_decode_fs_bad: "decode_fs example_libraw ''bad.3fr'' = ([OpenFile ''bad.3fr''], None)"
  by (simp add: decode_fs_def example_libraw_def LIBRAW_SUCCESS_def)

lemma ex_gray_full_run:
  "convert3frToExr example_libraw example_exr ''gray.3fr'' ''full.exr'' useSRGB exposure files =
     Some \<lparr>returned = False,
           calls = [OpenFile ''gray.3fr'', Unpack example_data,
                    SetGeometry (force_full_sensor (sizes example_data)),
                    DcrawProcess example_session, MakeMemImage example_session,
                    ExrOpen ''full.exr'' 2 1, ExrWritePixels ''full.exr'' 1, ClearMem],
           disk = files(''full.exr'' \<mapsto> Incomplete)\<rparr>"
  by (simp add: convert_after_decode [OF ex_decode] exr_stage_WriteThrows example_exr_def
      ex_gray_pixels) (simp add: ex_gray)

lemma ex_rgb_fs:
  "example_image ''a.3fr'' example_session_fs =
     \<lparr>image_height = 1, image_width = 2, image_colors = 3, image_bits = 16,
      image_data = [5, 42, 79, 116, 153, 190, 227, 8, 45, 82, 119, 156]\<rparr>"
  unfolding example_image_def Let_def
  by (simp add: example_data_def use_full_sensor_def example_session_fs_def upt_rec)

lemma ex_rgb_fs_pixels:
  "convert_pixels_fs (example_image ''a.3fr'' example_session_fs) =
     Pixels [[\<lparr>px_r = Fin (10757 / 65535), px_g = Fin (29775 / 65535),
               px_b = Fin (48793 / 65535), px_a = Fin 1\<rparr>,
              \<lparr>px_r = Fin (2275 / 65535), px_g = Fin (21037 / 65535),
               px_b = Fin (40055 / 65535), px_a = Fin 1\<rparr>]]"
  unfolding ex_rgb_fs convert_pixels_fs_def scan_def Let_def
  by (simp add: upt_rec pixel_index_def pixel_fs_def read_u16_def)

lemma ex_rgb_fs_full_run:
  "convert3frToExr_fs example_libraw example_exr ''a.3fr'' ''full.exr'' files =
     Some \<lparr>returned = False,
           calls = [OpenFile ''a.3fr'', SetGeometry (use_full_sensor (sizes example_data)),
                    Unpack example_session_fs, DcrawProcess example_session_fs,
                    MakeMemImage example_session_fs,
                    ExrOpen ''full.exr'' 2 1, ExrWritePixels ''full.exr'' 1, ClearMem],
           disk = files(''full.exr'' \<mapsto> Incomplete)\<rparr>"
  by (simp add: convert_fs_after_decode [OF ex_decode_fs] exr_stage_fs_def example_exr_def
      ex_rgb_fs_pixels Let_def) (simp add: ex_rgb_fs)

text \<open>The example encoder fails on \<^verbatim>\<open>full.exr\<close>; the example decoder cannot open
  \<^verbatim>\<open>bad.3fr\<close>.\<close>

theorem write_failure_leaves_incomplete_file_witness:
  "\<not> returned (the (convert3frToExr example_libraw example_exr ''gray.3fr'' ''full.exr'' True
        (Fin 1) Map.empty))
   \<and> disk (the (convert3frToExr example_libraw example_exr ''gray.3fr'' ''full.exr'' True
        (Fin 1) Map.empty)) = [''full.exr'' \<mapsto> Incomplete]
   \<and> convert3frToExr example_libraw example_exr ''bad.3fr'' ''bad.exr'' True (Fin 1) Map.empty
       = Some \<lparr>returned = False, calls = [OpenFile ''bad.3fr''], disk = Map.empty\<rparr>
   \<and> \<not> returned (the (convert3frToExr_fs example_libraw example_exr ''a.3fr'' ''full.exr''
        Map.empty))
   \<and> disk (the (convert3frToExr_fs example_libraw example_exr ''a.3fr'' ''full.exr'' Map.empty))
       = [''full.exr'' \<mapsto> Incomplete]
   \<and> convert3frToExr_fs example_libraw example_exr ''bad.3fr'' ''bad.exr'' Map.empty
       = Some \<lparr>returned = False, calls = [OpenFile ''bad.3fr''], disk = Map.empty\<rparr>"
proof -
  let ?img = "example_image ''gray.3fr'' example_session"
  let ?tr = "[OpenFile ''gray.3fr'', Unpack example_data,
          SetGeometry (force_full_sensor (sizes example_data)),
          DcrawProcess example_session, MakeMemImage example_session]"
  let ?rn = "the (convert3frToExr example_libraw example_exr ''gray.3fr'' ''full.exr'' True
      (Fin 1) Map.empty)"
  let ?img' = "example_image ''a.3fr'' example_session_fs"
  let ?tr' = "[OpenFile ''a.3fr'', SetGeometry (use_full_sensor (sizes example_data)),
        Unpack example_session_fs, DcrawProcess example_session_fs,
        MakeMemImage example_session_fs]"
  let ?rn' = "the (convert3frToExr_fs example_libraw example_exr ''a.3fr'' ''full.exr''
      Map.empty)"
  have d: "decode example_libraw ''gray.3fr'' = (?tr, Some ?img)"
    by (simp add: ex_decode)
  have w: "example_exr ''full.exr'' = WriteThrows"
    by (simp add: example_exr_def)
  have r: "convert3frToExr example_libraw example_exr ''gray.3fr'' ''full.exr'' True (Fin 1)
      Map.empty = Some ?rn"
    by (simp add: ex_gray_full_run)
  have d': "decode_fs example_libraw ''a.3fr'' = (?tr', Some ?img')"
    by (simp add: ex_decode_fs)
  have u: "convert_pixels_fs ?img' \<noteq> Unsupported"
    by (simp add: ex_rgb_fs_pixels)
  have r': "convert3frToExr_fs example_libraw example_exr ''a.3fr'' ''full.exr'' Map.empty
      = Some ?rn'"
    by (simp add: ex_rgb_fs_full_run)
  note t1 = write_failure_leaves_incomplete_file [where lr = example_libraw
      and exr = example_exr and inputPath = "''gray.3fr''" and outputPath = "''full.exr''"
      and useSRGB = True and exposure = "Fin 1" and files = Map.empty and tr = ?tr
      and img = ?img and rn = ?rn]
  note t2 = write_failure_leaves_incomplete_file [where lr = example_libraw
      and exr = example_exr and inputPath = "''a.3fr''" and outputPath = "''full.exr''"
      and files = Map.empty and tr' = ?tr' and img' = ?img' and rn' = ?rn']
  note t3 = write_failure_leaves_incomplete_file [where lr = example_libraw
      and exr = example_exr and inputPath = "''bad.3fr''" and outputPath = "''bad.exr''"
      and useSRGB = True and exposure = "Fin 1" and files = Map.empty
      and tr = "[OpenFile ''bad.3fr'']" and tr' = "[OpenFile ''bad.3fr'']"]
  from t1 d w r have c1: "\<not> returned ?rn \<and> disk ?rn = [''full.exr'' \<mapsto> Incomplete]"
    by blast
  from t2 d' w u r' have c2: "\<not> returned ?rn' \<and> disk ?rn' = [''full.exr'' \<mapsto> Incomplete]"
    by blast
  from t3 ex_decode_bad have c3: "convert3frToExr example_libraw example_exr ''bad.3fr''
      ''bad.exr'' True (Fin 1) Map.empty
       = Some \<lparr>returned = False, calls = [OpenFile ''bad.3fr''], disk = Map.empty\<rparr>"
    by blast
  from t3 ex_decode_fs_bad have c4: "convert3frToExr_fs example_libraw example_exr ''bad.3fr''
      ''bad.exr'' Map.empty
       = Some \<lparr>returned = False, calls = [OpenFile ''bad.3fr''], disk = Map.empty\<rparr>"
    by blast
  from c1 c2 c3 c4 show ?thesis by blast
qed

lemma ex_gray8_fs_run:
  "convert3frToExr_fs example_libraw example_exr ''gray8.3fr'' ''gray8.exr'' files =
     Some \<lparr>returned = False,
           calls = [OpenFile ''gray8.3fr'', SetGeometry (use_full_sensor (sizes example_data)),
                    Unpack example_session_fs, DcrawProcess example_session_fs,
                    MakeMemImage example_session_fs, ExrOpen ''gray8.exr'' 2 1, ClearMem],
           disk = files(''gray8.exr'' \<mapsto> Incomplete)\<rparr>"
proof -
  have "convert_pixels_fs (example_image ''gray8.3fr'' example_session_fs) = Unsupported"
    by (rule convert_pixels_fs_unsupported) (simp_all add: ex_gray8_fs)
  from exr_stage_fs_unsupported [OF this] show ?thesis
    by (simp add: convert_fs_after_decode [OF ex_decode_fs] example_exr_def ex_gray8_fs)
qed

text \<open>
  C2 as stated fails. On an empty file system, the general converter whose write throws
  returns \<^verbatim>\<open>false\<close> after releasing the buffer, and the output path then holds an
  incomplete file. The full-sensor converter leaves such a file as well when it rejects the
  format of the buffer.
\<close>

theorem failed_write_leaves_a_file:
  "map_option (\<lambda>rn. (returned rn, last (calls rn), disk rn ''full.exr''))
     (convert3frToExr example_libraw example_exr ''gray.3fr'' ''full.exr'' True (Fin 1) Map.empty)
     = Some (False, ClearMem, Some Incomplete)
   \<and> map_option (\<lambda>rn. (returned rn, last (calls rn), disk rn ''gray8.exr''))
     (convert3frToExr_fs example_libraw example_exr ''gray8.3fr'' ''gray8.exr'' Map.empty)
     = Some (False, ClearMem, Some Incomplete)"
  by (simp add: ex_gray_full_run ex_gray8_fs_run)

subsection \<open>The order of the calls on the session\<close>

lemma exr_stage_session_calls:
  assumes "exr_stage exr outputPath useSRGB exposure img tr files = Some rn"
  shows "filter session_call (calls rn) = filter session_call tr"
proof (cases "exr outputPath")
  case NoFault
  with assms show ?thesis
    by (cases "convert_pixels useSRGB exposure img") (auto simp: exr_stage_NoFault)
next
  case OpenThrows
  with assms show ?thesis by (auto simp: exr_stage_def Let_def)
next
  case AllocThrows
  with assms show ?thesis by (auto simp: exr_stage_def Let_def)
next
  case WriteThrows
  from exr_stage_WriteThrows_run [where exr = exr and outputPath = outputPath, OF this assms]
  show ?thesis by simp
qed

lemma exr_stage_fs_session_calls:
  assumes "exr_stage_fs exr outputPath img tr files = Some rn"
  shows "filter session_call (calls rn) = filter session_call tr"
proof (cases "convert_pixels_fs img")
  case Unsupported
  from exr_stage_fs_unsupported [OF this, of exr outputPath tr files] assms
  have "calls rn = tr @ [ExrOpen outputPath (image_width img) (image_height img), ClearMem]"
    by auto
  then show ?thesis by simp
next
  case BadRead
  with assms show ?thesis
    by (cases "exr outputPath") (auto simp: exr_stage_fs_def Let_def)
next
  case (Pixels px)
  with assms show ?thesis
    by (cases "exr outputPath") (auto simp: exr_stage_fs_def Let_def)
qed

lemma convert_session_calls:
  assumes "convert3frToExr lr exr inputPath outputPath useSRGB exposure files = Some rn"
  shows "filter session_call (calls rn) = filter session_call (fst (decode lr inputPath))"
proof (cases "decode lr inputPath")
  case (Pair tr r)
  show ?thesis
  proof (cases r)
    case None
    with Pair assms show ?thesis by (auto simp: convert3frToExr_def)
  next
    case (Some img)
    with Pair assms have "exr_stage exr outputPath useSRGB exposure img tr files = Some rn"
      by (simp add: convert3frToExr_def)
    from exr_stage_session_calls [OF this] Pair show ?thesis by simp
  qed
qed

lemma convert_fs_session_calls:
  assumes "convert3frToExr_fs lr exr inputPath outputPath files = Some rn"
  shows "filter session_call (calls rn) = filter session_call (fst (decode_fs lr inputPath))"
proof (cases "decode_fs lr inputPath")
  case (Pair tr r)
  show ?thesis
  proof (cases r)
    case None
    with Pair assms show ?thesis by (auto simp: convert3frToExr_fs_def)
  next
    case (Some img)
    with Pair assms have "exr_stage_fs exr outputPath img tr files = Some rn"
      by (simp add: convert3frToExr_fs_def)
    from exr_stage_fs_session_calls [OF this] Pair show ?thesis by simp
  qed
qed

lemma decode_fs_session_calls:
  assumes "open_file lr inputPath = (LIBRAW_SUCCESS, opened)"
  shows "filter session_call (fst (decode_fs lr inputPath)) =
     [OpenFile inputPath, SetGeometry (use_full_sensor (sizes opened)),
      Unpack (opened\<lparr>params := full_sensor_params (params opened), sizes := use_full_sensor (sizes opened)\<rparr>)]
     @ (case unpack lr inputPath
             (opened\<lparr>params := full_sensor_params (params opened), sizes := use_full_sensor (sizes opened)\<rparr>)
        of (ret, d2) \<Rightarrow> if ret = LIBRAW_SUCCESS then [DcrawProcess d2] else [])"
  using assms by (simp add: decode_fs_def Let_def split: prod.splits)

lemma decode_session_calls:
  assumes "open_file lr inputPath = (LIBRAW_SUCCESS, opened)"
  shows "filter session_call (fst (decode lr inputPath)) =
     [OpenFile inputPath, Unpack opened]
     @ (case unpack lr inputPath opened of (ret, unpacked) \<Rightarrow>
          if ret = LIBRAW_SUCCESS then
            [SetGeometry (force_full_sensor (sizes unpacked)),
             DcrawProcess (unpacked\<lparr>sizes := force_full_sensor (sizes unpacked),
                              params := general_params (params unpacked)\<rparr>)]
          else [])"
  using assms by (simp add: decode_def Let_def split: prod.splits)

lemma decode_open_failed:
  assumes "open_file lr inputPath = (ret, opened)" and "ret \<noteq> LIBRAW_SUCCESS"
  shows "decode lr inputPath = ([OpenFile inputPath], None)"
    and "decode_fs lr inputPath = ([OpenFile inputPath], None)"
  using assms by (simp_all add: decode_def decode_fs_def)


lemma full_sensor_geometry:
  "width (use_full_sensor s) = raw_width s \<and> height (use_full_sensor s) = raw_height s
   \<and> top_margin (use_full_sensor s) = 0 \<and> left_margin (use_full_sensor s) = 0
   \<and> width (force_full_sensor s) = raw_width s \<and> height (force_full_sensor s) = raw_height s
   \<and> top_margin (force_full_sensor s) = 0 \<and> left_margin (force_full_sensor s) = 0"
  by (simp add: use_full_sensor_def force_full_sensor_def Let_def)

text \<open>
  The order in which each converter calls the decoder, for every decoder and every file.
  The full-sensor converter overwrites the geometry of the session after \<^verbatim>\<open>open_file\<close> and
  before \<^verbatim>\<open>unpack\<close>: these are its first three calls, in that order, once each, and
  \<^verbatim>\<open>unpack\<close> finds the overwritten geometry. The second call of the general converter is
  \<^verbatim>\<open>unpack\<close>, on the session as \<^verbatim>\<open>open_file\<close> left it, and it overwrites the geometry
  only after \<^verbatim>\<open>unpack\<close> has succeeded; when \<^verbatim>\<open>unpack\<close> fails it does not overwrite it at
  all. When the file cannot be opened, neither converter does anything else. The
  overwritten geometry has the raw width and height and both margins zero.
\<close>

theorem geometry_override_order:
  "(convert3frToExr_fs lr exr inputPath outputPath files = Some rn'
      \<and> open_file lr inputPath = (LIBRAW_SUCCESS, opened)
     \<longrightarrow> (\<exists>rest. filter session_call (calls rn') =
            [OpenFile inputPath, SetGeometry (use_full_sensor (sizes opened)),
             Unpack (opened\<lparr>params := full_sensor_params (params opened),
                        sizes := use_full_sensor (sizes opened)\<rparr>)] @ rest
           \<and> (rest = [] \<or> (\<exists>d. rest = [DcrawProcess d]))))
   \<and> (convert3frToExr lr exr inputPath outputPath useSRGB exposure files = Some rn
      \<and> open_file lr inputPath = (LIBRAW_SUCCESS, opened)
      \<and> unpack lr inputPath opened = (LIBRAW_SUCCESS, unpacked)
     \<longrightarrow> filter session_call (calls rn) =
           [OpenFile inputPath, Unpack opened, SetGeometry (force_full_sensor (sizes unpacked)),
            DcrawProcess (unpacked\<lparr>sizes := force_full_sensor (sizes unpacked),
                             params := general_params (params unpacked)\<rparr>)])
   \<and> (convert3frToExr lr exr inputPath outputPath useSRGB exposure files = Some rn
      \<and> open_file lr inputPath = (LIBRAW_SUCCESS, opened)
      \<and> unpack lr inputPath opened = (ret, unpacked) \<and> ret \<noteq> LIBRAW_SUCCESS
     \<longrightarrow> filter session_call (calls rn) = [OpenFile inputPath, Unpack opened])
   \<and> (open_file lr inputPath = (ret, opened) \<and> ret \<noteq> LIBRAW_SUCCESS
     \<longrightarrow> convert3frToExr lr exr inputPath outputPath useSRGB exposure files
           = Some \<lparr>returned = False, calls = [OpenFile inputPath], disk = files\<rparr>
         \<and> convert3frToExr_fs lr exr inputPath outputPath files
           = Some \<lparr>returned = False, calls = [OpenFile inputPath], disk = files\<rparr>)
   \<and> width (use_full_sensor s) = raw_width s \<and> height (use_full_sensor s) = raw_height s
   \<and> top_margin (use_full_sensor s) = 0 \<and> left_margin (use_full_sensor s) = 0
   \<and> width (force_full_sensor s) = raw_width s \<and> height (force_full_sensor s) = raw_height s
   \<and> top_margin (force_full_sensor s) = 0 \<and> left_margin (force_full_sensor s) = 0"
proof -
  have p1: "\<exists>rest. filter session_call (calls rn') =
            [OpenFile inputPath, SetGeometry (use_full_sensor (sizes opened)),
             Unpack (opened\<lparr>params := full_sensor_params (params opened),
                        sizes := use_full_sensor (sizes opened)\<rparr>)] @ rest
           \<and> (rest = [] \<or> (\<exists>d. rest = [DcrawProcess d]))"
    if "convert3frToExr_fs lr exr inputPath outputPath files = Some rn'
      \<and> open_file lr inputPath = (LIBRAW_SUCCESS, opened)"
  proof -
    let ?du = "opened\<lparr>params := full_sensor_params (params opened),
                      sizes := use_full_sensor (sizes opened)\<rparr>"
    let ?rest = "case unpack lr inputPath ?du of (ret, d2) \<Rightarrow>
        if ret = LIBRAW_SUCCESS then [DcrawProcess d2] else []"
    from that have o: "open_file lr inputPath = (LIBRAW_SUCCESS, opened)" by simp
    from that have "convert3frToExr_fs lr exr inputPath outputPath files = Some rn'" by simp
    then have "filter session_call (calls rn')
        = filter session_call (fst (decode_fs lr inputPath))"
      by (rule convert_fs_session_calls)
    then have "filter session_call (calls rn') =
        [OpenFile inputPath, SetGeometry (use_full_sensor (sizes opened)), Unpack ?du] @ ?rest"
      by (simp only: decode_fs_session_calls [OF o])
    moreover have "?rest = [] \<or> (\<exists>d. ?rest = [DcrawProcess d])"
      by (cases "unpack lr inputPath ?du") simp
    ultimately show ?thesis by blast
  qed
  have p2: "filter session_call (calls rn) =
           [OpenFile inputPath, Unpack opened, SetGeometry (force_full_sensor (sizes unpacked)),
            DcrawProcess (unpacked\<lparr>sizes := force_full_sensor (sizes unpacked),
                             params := general_params (params unpacked)\<rparr>)]"
    if "convert3frToExr lr exr inputPath outputPath useSRGB exposure files = Some rn
      \<and> open_file lr inputPath = (LIBRAW_SUCCESS, opened)
      \<and> unpack lr inputPath opened = (LIBRAW_SUCCESS, unpacked)"
  proof -
    from that have o: "open_file lr inputPath = (LIBRAW_SUCCESS, opened)" by simp
    from that have "convert3frToExr lr exr inputPath outputPath useSRGB exposure files = Some rn"
      by simp
    then have "filter session_call (calls rn)
        = filter session_call (fst (decode lr inputPath))"
      by (rule convert_session_calls)
    with that show ?thesis
      by (simp add: decode_session_calls [OF o])
  qed
  have p3: "filter session_call (calls rn) = [OpenFile inputPath, Unpack opened]"
    if "convert3frToExr lr exr inputPath outputPath useSRGB exposure files = Some rn
      \<and> open_file lr inputPath = (LIBRAW_SUCCESS, opened)
      \<and> unpack lr inputPath opened = (ret, unpacked) \<and> ret \<noteq> LIBRAW_SUCCESS"
  proof -
    from that have o: "open_file lr inputPath = (LIBRAW_SUCCESS, opened)" by simp
    from that have "convert3frToExr lr exr inputPath outputPath useSRGB exposure files = Some rn"
      by simp
    then have "filter session_call (calls rn)
        = filter session_call (fst (decode lr inputPath))"
      by (rule convert_session_calls)
    with that show ?thesis
      by (simp add: decode_session_calls [OF o])
  qed
  have p4: "convert3frToExr lr exr inputPath outputPath useSRGB exposure files
           = Some \<lparr>returned = False, calls = [OpenFile inputPath], disk = files\<rparr>
         \<and> convert3frToExr_fs lr exr inputPath outputPath files
           = Some \<lparr>returned = False, calls = [OpenFile inputPath], disk = files\<rparr>"
    if "open_file lr inputPath = (ret, opened) \<and> ret \<noteq> LIBRAW_SUCCESS"
  proof -
    from that have o: "open_file lr inputPath = (ret, opened)" and n: "ret \<noteq> LIBRAW_SUCCESS"
      by simp_all
    from decode_open_failed [OF o n] show ?thesis
      by (simp add: convert_decode_failed convert_fs_decode_failed)
  qed
  from p1 p2 p3 p4 full_sensor_geometry [of s] show ?thesis
    by blast
qed


lemma ex_open:
  "p \<noteq> ''bad.3fr'' \<Longrightarrow> open_file example_libraw p = (LIBRAW_SUCCESS, example_data)"
  "open_file example_libraw ''bad.3fr'' = (- 2, example_data)"
  by (simp_all add: example_libraw_def LIBRAW_SUCCESS_def)

lemma ex_unpack:
  "p \<noteq> ''cut.3fr'' \<Longrightarrow> unpack example_libraw p d = (LIBRAW_SUCCESS, d)"
  "unpack example_libraw ''cut.3fr'' d = (- 4, d)"
  by (simp_all add: example_libraw_def LIBRAW_SUCCESS_def)

lemma ex_cut_run:
  "convert3frToExr example_libraw example_exr ''cut.3fr'' outputPath useSRGB exposure files =
     Some \<lparr>returned = False, calls = [OpenFile ''cut.3fr'', Unpack example_data],
           disk = files\<rparr>"
  by (simp add: convert3frToExr_def decode_def ex_open ex_unpack LIBRAW_SUCCESS_def)

text \<open>The example decoder: a file that converts in each variant, \<^verbatim>\<open>cut.3fr\<close> that cannot
  be unpacked, \<^verbatim>\<open>bad.3fr\<close> that cannot be opened.\<close>

theorem geometry_override_order_witness:
  "(\<exists>rest. filter session_call (calls (the (convert3frToExr_fs example_libraw example_exr
        ''a.3fr'' ''full.exr'' Map.empty))) =
      [OpenFile ''a.3fr'', SetGeometry (use_full_sensor (sizes example_data)),
       Unpack (example_data\<lparr>params := full_sensor_params (params example_data),
                  sizes := use_full_sensor (sizes example_data)\<rparr>)] @ rest
      \<and> (rest = [] \<or> (\<exists>d. rest = [DcrawProcess d])))
   \<and> filter session_call (calls (the (convert3frToExr example_libraw example_exr ''gray.3fr''
        ''gray.exr'' True (Fin 1) Map.empty))) =
      [OpenFile ''gray.3fr'', Unpack example_data,
       SetGeometry (force_full_sensor (sizes example_data)),
       DcrawProcess (example_data\<lparr>sizes := force_full_sensor (sizes example_data),
                        params := general_params (params example_data)\<rparr>)]
   \<and> filter session_call (calls (the (convert3frToExr example_libraw example_exr ''cut.3fr''
        ''cut.exr'' True (Fin 1) Map.empty))) = [OpenFile ''cut.3fr'', Unpack example_data]
   \<and> convert3frToExr example_libraw example_exr ''bad.3fr'' ''bad.exr'' True (Fin 1) Map.empty
       = Some \<lparr>returned = False, calls = [OpenFile ''bad.3fr''], disk = Map.empty\<rparr>
   \<and> width (use_full_sensor (sizes example_data)) = raw_width (sizes example_data)"
proof -
  let ?rn' = "the (convert3frToExr_fs example_libraw example_exr ''a.3fr'' ''full.exr''
      Map.empty)"
  let ?rn = "the (convert3frToExr example_libraw example_exr ''gray.3fr'' ''gray.exr'' True
      (Fin 1) Map.empty)"
  let ?rc = "the (convert3frToExr example_libraw example_exr ''cut.3fr'' ''cut.exr'' True
      (Fin 1) Map.empty)"
  have r': "convert3frToExr_fs example_libraw example_exr ''a.3fr'' ''full.exr'' Map.empty
      = Some ?rn'"
    by (simp add: ex_rgb_fs_full_run)
  have r: "convert3frToExr example_libraw example_exr ''gray.3fr'' ''gray.exr'' True (Fin 1)
      Map.empty = Some ?rn"
    by (simp add: ex_gray_run)
  have rc: "convert3frToExr example_libraw example_exr ''cut.3fr'' ''cut.exr'' True (Fin 1)
      Map.empty = Some ?rc"
    by (simp add: ex_cut_run)
  have o1: "open_file example_libraw ''a.3fr'' = (LIBRAW_SUCCESS, example_data)"
    and o2: "open_file example_libraw ''gray.3fr'' = (LIBRAW_SUCCESS, example_data)"
    and o3: "open_file example_libraw ''cut.3fr'' = (LIBRAW_SUCCESS, example_data)"
    by (simp_all add: ex_open)
  have u2: "unpack example_libraw ''gray.3fr'' example_data = (LIBRAW_SUCCESS, example_data)"
    by (simp add: ex_unpack)
  have u3: "unpack example_libraw ''cut.3fr'' example_data = (- 4, example_data)"
    and n3: "- 4 \<noteq> LIBRAW_SUCCESS"
    by (simp_all add: ex_unpack LIBRAW_SUCCESS_def)
  have o4: "open_file example_libraw ''bad.3fr'' = (- 2, example_data)"
    and n4: "- 2 \<noteq> LIBRAW_SUCCESS"
    by (simp_all add: ex_open LIBRAW_SUCCESS_def)
  note t1 = geometry_override_order [where lr = example_libraw and exr = example_exr
      and inputPath = "''a.3fr''" and outputPath = "''full.exr''" and files = Map.empty
      and rn' = ?rn' and opened = example_data and s = "sizes example_data"]
  note t2 = geometry_override_order [where lr = example_libraw and exr = example_exr
      and inputPath = "''gray.3fr''" and outputPath = "''gray.exr''" and files = Map.empty
      and useSRGB = True and exposure = "Fin 1" and rn = ?rn and opened = example_data
      and unpacked = example_data]
  note t3 = geometry_override_order [where lr = example_libraw and exr = example_exr
      and inputPath = "''cut.3fr''" and outputPath = "''cut.exr''" and files = Map.empty
      and useSRGB = True and exposure = "Fin 1" and rn = ?rc and opened = example_data
      and unpacked = example_data and ret = "- 4"]
  note t4 = geometry_override_order [where lr = example_libraw and exr = example_exr
      and inputPath = "''bad.3fr''" and outputPath = "''bad.exr''" and files = Map.empty
      and useSRGB = True and exposure = "Fin 1" and opened = example_data and ret = "- 2"]
  from t1 r' o1 have c1: "\<exists>rest. filter session_call (calls ?rn') =
      [OpenFile ''a.3fr'', SetGeometry (use_full_sensor (sizes example_data)),
       Unpack (example_data\<lparr>params := full_sensor_params (params example_data),
                  sizes := use_full_sensor (sizes example_data)\<rparr>)] @ rest
      \<and> (rest = [] \<or> (\<exists>d. rest = [DcrawProcess d]))"
    by blast
  from t1 have c5: "width (use_full_sensor (sizes example_data)) = raw_width (sizes example_data)"
    by blast
  from t2 r o2 u2 have c2: "filter session_call (calls ?rn) =
      [OpenFile ''gray.3fr'', Unpack example_data,
       SetGeometry (force_full_sensor (sizes example_data)),
       DcrawProcess (example_data\<lparr>sizes := force_full_sensor (sizes example_data),
                        params := general_params (params example_data)\<rparr>)]"
    by blast
  from t3 rc o3 u3 n3 have c3: "filter session_call (calls ?rc)
      = [OpenFile ''cut.3fr'', Unpack example_data]"
    by blast
  from t4 o4 n4 have c4: "convert3frToExr example_libraw example_exr ''bad.3fr'' ''bad.exr''
      True (Fin 1) Map.empty
       = Some \<lparr>returned = False, calls = [OpenFile ''bad.3fr''], disk = Map.empty\<rparr>"
    by blast
  from c1 c2 c3 c4 c5 show ?thesis by blast
qed

text \<open>
  C1. The general converter does not overwrite the geometry before \<^verbatim>\<open>unpack\<close>, as the
  full-sensor converter does. On \<^verbatim>\<open>gray.3fr\<close> of the example decoder it calls \<^verbatim>\<open>unpack\<close>
  second, on a session whose width is still the visible width 1 and whose left margin is
  still 1, and overwrites the geometry third.
\<close>

theorem general_unpacks_before_override:
  "map_option (filter session_call \<circ> calls)
     (convert3frToExr example_libraw example_exr ''gray.3fr'' ''gray.exr'' True (Fin 1) Map.empty)
     = Some [OpenFile ''gray.3fr'', Unpack example_data,
             SetGeometry (force_full_sensor (sizes example_data)), DcrawProcess example_session]
   \<and> width (sizes example_data) = 1 \<and> raw_width (sizes example_data) = 2
   \<and> left_margin (sizes example_data) = 1
   \<and> width (force_full_sensor (sizes example_data)) = 2
   \<and> left_margin (force_full_sensor (sizes example_data)) = 0"
proof -
  have "map_option (filter session_call \<circ> calls)
     (convert3frToExr example_libraw example_exr ''gray.3fr'' ''gray.exr'' True (Fin 1) Map.empty)
     = Some [OpenFile ''gray.3fr'', Unpack example_data,
             SetGeometry (force_full_sensor (sizes example_data)), DcrawProcess example_session]"
    by (simp add: ex_gray_run)
  moreover have "width (sizes example_data) = 1 \<and> raw_width (sizes example_data) = 2
   \<and> left_margin (sizes example_data) = 1
   \<and> width (force_full_sensor (sizes example_data)) = 2
   \<and> left_margin (force_full_sensor (sizes example_data)) = 0"
    by (simp add: example_data_def force_full_sensor_def)
  ultimately show ?thesis by blast
qed

end
